theory Spec2Isabelle
  imports Complex_Main
begin

section \<open>JavaScript strings and values\<close>

text \<open>
  A JavaScript string is a sequence of UTF-16 code units; it is modelled as the list of
  its code units. \<open>ustr\<close> embeds an ASCII literal, so \<open>ustr ''429''\<close> is the
  JavaScript string \<^verbatim>\<open>'429'\<close>.
\<close>

type_synonym jsstring = "nat list"

definition ustr :: "string \<Rightarrow> jsstring" where
  "ustr s = map of_char s"

text \<open>\<^verbatim>\<open>String.prototype.startsWith\<close> and \<^verbatim>\<open>String.prototype.includes\<close>.\<close>

fun startsWith :: "jsstring \<Rightarrow> jsstring \<Rightarrow> bool" where
  "startsWith s [] = True"
| "startsWith [] (c # cs) = False"
| "startsWith (x # xs) (c # cs) = (x = c \<and> startsWith xs cs)"

fun js_includes :: "jsstring \<Rightarrow> jsstring \<Rightarrow> bool" where
  "js_includes [] sub = (sub = [])"
| "js_includes (x # xs) sub = (startsWith (x # xs) sub \<or> js_includes xs sub)"

text \<open>
  The values a property of a thrown object can hold, as far as \<^verbatim>\<open>=== 429\<close> can tell
  them apart.
\<close>

datatype jsval = JUndefined | JNull | JBoolean bool | JNumber rat | JString jsstring

section \<open>Regular expressions and the fence-stripping helpers\<close>

text \<open>
  The code units that \<^verbatim>\<open>\s\<close> matches and \<^verbatim>\<open>trim()\<close> removes: the white space and
  line terminators of ECMAScript (TAB, LF, VT, FF, CR, SP, NBSP, U+1680, U+2000 to
  U+200A, LS, PS, U+202F, U+205F, U+3000, U+FEFF).
\<close>

definition is_space :: "nat \<Rightarrow> bool" where
  "is_space c =
     (c \<in> set [9, 10, 11, 12, 13, 32, 160, 5760, 8232, 8233, 8239, 8287, 12288, 65279] \<or>
      (8192 \<le> c \<and> c \<le> 8202))"

text \<open>
  Under the \<^verbatim>\<open>i\<close> flag (without \<^verbatim>\<open>u\<close>) two code units match when their
  canonical forms agree: the upper-case mapping, except that a code unit from 128 up is
  never mapped below 128. A pattern character below 128 therefore matches exactly the
  code units below 128 with the same ASCII upper case.
\<close>

definition to_upper_ascii :: "nat \<Rightarrow> nat" where
  "to_upper_ascii c = (if 97 \<le> c \<and> c \<le> 122 then c - 32 else c)"

text \<open>
  The regular expressions of the program are sequences of four kinds of atoms: the
  assertions \<^verbatim>\<open>^\<close> and \<^verbatim>\<open>$\<close> (no \<^verbatim>\<open>m\<close> flag: start and end of the input), one
  character of a class, and the greedy repetition \<^verbatim>\<open>*\<close> of a class.
\<close>

datatype cls = Exactly nat | IgnoreCase nat | WhiteSpace

fun cls_matches :: "cls \<Rightarrow> nat \<Rightarrow> bool" where
  "cls_matches (Exactly c) x = (x = c)"
| "cls_matches (IgnoreCase c) x = (x < 128 \<and> to_upper_ascii x = to_upper_ascii c)"
| "cls_matches WhiteSpace x = is_space x"

datatype atom = Start | End | One cls | Many cls

text \<open>
  The backtracking matcher: \<open>rx_match rs at_start s\<close> matches the atoms \<open>rs\<close> at the
  front of \<open>s\<close> and returns what follows the match; \<open>at_start\<close> says whether \<open>s\<close> is
  the whole input. A greedy repetition first tries to take one more character and falls
  back to taking none.
\<close>

fun rx_match :: "atom list \<Rightarrow> bool \<Rightarrow> jsstring \<Rightarrow> jsstring option" where
  "rx_match [] at_start s = Some s"
| "rx_match (Start # rs) at_start s = (if at_start then rx_match rs at_start s else None)"
| "rx_match (End # rs) at_start s = (if s = [] then rx_match rs at_start s else None)"
| "rx_match (One c # rs) at_start [] = None"
| "rx_match (One c # rs) at_start (x # xs) =
     (if cls_matches c x then rx_match rs False xs else None)"
| "rx_match (Many c # rs) at_start [] = rx_match rs at_start []"
| "rx_match (Many c # rs) at_start (x # xs) =
     (if cls_matches c x
      then (case rx_match (Many c # rs) False xs of
              Some rest \<Rightarrow> Some rest
            | None \<Rightarrow> rx_match rs at_start (x # xs))
      else rx_match rs at_start (x # xs))"

text \<open>
  \<^verbatim>\<open>text.replace(regex, '')\<close> for a regular expression without the \<^verbatim>\<open>g\<close> flag: the
  leftmost match is removed, and a text without a match is returned as it is.
\<close>

fun rx_replace_from :: "atom list \<Rightarrow> bool \<Rightarrow> jsstring \<Rightarrow> jsstring" where
  "rx_replace_from rs at_start [] =
     (case rx_match rs at_start [] of Some rest \<Rightarrow> rest | None \<Rightarrow> [])"
| "rx_replace_from rs at_start (x # xs) =
     (case rx_match rs at_start (x # xs) of
        Some rest \<Rightarrow> rest
      | None \<Rightarrow> x # rx_replace_from rs False xs)"

definition replace_first :: "atom list \<Rightarrow> jsstring \<Rightarrow> jsstring" where
  "replace_first rs s = rx_replace_from rs True s"

text \<open>\<^verbatim>\<open>String.prototype.trim\<close>\<close>

definition trim :: "jsstring \<Rightarrow> jsstring" where
  "trim s = rev (dropWhile is_space (rev (dropWhile is_space s)))"

text \<open>
  \<^verbatim>\<open>/^```python\s*/i\<close>, \<^verbatim>\<open>/^```json\s*/i\<close>, \<^verbatim>\<open>/^```\s*/\<close> and \<^verbatim>\<open>/```\s*$/\<close>.
\<close>

definition python_fence_rx :: "atom list" where
  "python_fence_rx = Start # map (\<lambda>c. One (IgnoreCase c)) (ustr ''```python'') @ [Many WhiteSpace]"

definition json_fence_rx :: "atom list" where
  "json_fence_rx = Start # map (\<lambda>c. One (IgnoreCase c)) (ustr ''```json'') @ [Many WhiteSpace]"

definition leading_fence_rx :: "atom list" where
  "leading_fence_rx = Start # map (\<lambda>c. One (Exactly c)) (ustr ''```'') @ [Many WhiteSpace]"

definition trailing_fence_rx :: "atom list" where
  "trailing_fence_rx = map (\<lambda>c. One (Exactly c)) (ustr ''```'') @ [Many WhiteSpace, End]"

text \<open>
  \<^verbatim>\<open>text.replace(/^```python\s*/i, '').replace(/^```\s*/, '').replace(/```\s*$/, '').trim()\<close>
\<close>

definition cleanCode :: "jsstring \<Rightarrow> jsstring" where
  "cleanCode text =
     trim (replace_first trailing_fence_rx
            (replace_first leading_fence_rx
              (replace_first python_fence_rx text)))"

definition cleanJson :: "jsstring \<Rightarrow> jsstring" where
  "cleanJson text =
     trim (replace_first trailing_fence_rx
            (replace_first leading_fence_rx
              (replace_first json_fence_rx text)))"


section \<open>The remote generation call\<close>

text \<open>
  A request is the argument of \<^verbatim>\<open>ai.models.generateContent\<close>:
  \<^verbatim>\<open>{ model, config?, contents: { parts } }\<close>. A part is the inlined document
  (\<^verbatim>\<open>{ inlineData: { mimeType, data } }\<close>, the MIME type first) or a text
  (\<^verbatim>\<open>{ text }\<close>).
\<close>

datatype part = InlineData jsstring jsstring | TextPart jsstring

datatype schema =
    SchemaString
  | SchemaArray schema
  | SchemaObject "(jsstring \<times> schema) list" "jsstring list"

record config =
  systemInstruction :: "jsstring option"
  responseMimeType :: "jsstring option"
  responseSchema :: "schema option"

record request =
  model :: jsstring
  config :: "config option"
  parts :: "part list"

text \<open>
  The response's \<^verbatim>\<open>text\<close> is a string or \<^verbatim>\<open>undefined\<close>. A rejected call throws an
  error object; the wrapper reads its \<^verbatim>\<open>status\<close>, \<^verbatim>\<open>code\<close> and \<^verbatim>\<open>message\<close>. The
  message of an error object is a string, or absent; a thrown value that is no object,
  or whose message is of another type, is outside the model.
\<close>

record response =
  resp_text :: "jsstring option"

record js_error =
  status :: jsval
  code :: jsval
  message :: "jsstring option"

datatype outcome = Resolves response | Rejects js_error

text \<open>
  The remote endpoint is outside the program: it is a parameter, a function from the
  number of calls made so far and the request to the outcome of the call.
\<close>

type_synonym remote = "nat \<Rightarrow> request \<Rightarrow> outcome"

section \<open>Observable effects\<close>

text \<open>
  Every effect of the program is an event appended to a trace: a remote call, a
  \<^verbatim>\<open>delay(ms)\<close> that was awaited, the \<^verbatim>\<open>console.warn\<close> of a retry (with the values
  interpolated into its message: attempt number, attempt ceiling, delay), a
  \<^verbatim>\<open>console.error\<close>, and a call of the progress callback.
\<close>

datatype event =
    Call request
  | Sleep rat
  | ConsoleWarn nat nat rat
  | ConsoleError jsstring
  | Progress jsstring

fun is_call :: "event \<Rightarrow> bool" where
  "is_call (Call p) = True"
| "is_call e = False"

definition attempts :: "event list \<Rightarrow> nat" where
  "attempts w = length (filter is_call w)"

fun delays :: "event list \<Rightarrow> rat list" where
  "delays [] = []"
| "delays (Sleep d # w) = d # delays w"
| "delays (e # w) = delays w"

text \<open>
  The delays awaited before the \<open>k\<close>-th remote call of a trace (calls are numbered from
  1, as the retry notice numbers them) and after the call before it.
\<close>

fun delays_before_attempt :: "event list \<Rightarrow> nat \<Rightarrow> rat list" where
  "delays_before_attempt [] k = []"
| "delays_before_attempt (Call p # w) k =
     (if k \<le> 1 then [] else delays_before_attempt w (k - 1))"
| "delays_before_attempt (Sleep d # w) k =
     (if k = 1 then d # delays_before_attempt w k else delays_before_attempt w k)"
| "delays_before_attempt (e # w) k = delays_before_attempt w k"

section \<open>generateWithRetry\<close>

text \<open>
  \<^verbatim>\<open>error.status === 429 || error.code === 429 ||
  (error.message && error.message.includes('429')) ||
  (error.message && error.message.includes('RESOURCE_EXHAUSTED'))\<close>
\<close>

definition isRateLimit :: "js_error \<Rightarrow> bool" where
  "isRateLimit error =
     (status error = JNumber 429 \<or>
      code error = JNumber 429 \<or>
      (case message error of None \<Rightarrow> False
       | Some m \<Rightarrow> m \<noteq> [] \<and> js_includes m (ustr ''429'')) \<or>
      (case message error of None \<Rightarrow> False
       | Some m \<Rightarrow> m \<noteq> [] \<and> js_includes m (ustr ''RESOURCE_EXHAUSTED'')))"

text \<open>
  \<^verbatim>\<open>new Error("Failed to generate content after retries. The API quota may be exhausted.")\<close>
\<close>

definition quota_error :: js_error where
  "quota_error =
     \<lparr>status = JUndefined, code = JUndefined,
      message = Some (ustr ''Failed to generate content after retries. The API quota may be exhausted.'')\<rparr>"

text \<open>
  The loop of \<^verbatim>\<open>generateWithRetry\<close>, from iteration \<open>i\<close> with the current delay.
  The result is the thrown error (\<open>Inl\<close>) or the response (\<open>Inr\<close>), and the trace.
  \<^verbatim>\<open>currentDelay *= 1.5\<close> is exact in double precision for every delay the default
  ceiling can reach from 10000 (\<open>625 * 3 ^ k * 2 ^ 4 / 2 ^ k\<close> for \<open>k \<le> 9\<close>), so the
  delay is a rational number here.
\<close>

function retry_loop ::
  "remote \<Rightarrow> request \<Rightarrow> nat \<Rightarrow> nat \<Rightarrow> rat \<Rightarrow> event list \<Rightarrow> (js_error + response) \<times> event list"
where
  "retry_loop remote params retries i currentDelay w =
     (if i < retries then
        (case remote (attempts w) params of
           Resolves r \<Rightarrow> (Inr r, w @ [Call params])
         | Rejects error \<Rightarrow>
             if isRateLimit error \<and> i < retries - 1
             then retry_loop remote params retries (i + 1) (currentDelay * (3 / 2))
                    (w @ [Call params, ConsoleWarn (i + 1) retries currentDelay, Sleep currentDelay])
             else (Inl error, w @ [Call params]))
      else (Inl quota_error, w))"
  by pat_completeness auto
termination
  by (relation "measure (\<lambda>(remote, params, retries, i, currentDelay, w). retries - i)") auto

definition generateWithRetry ::
  "remote \<Rightarrow> request \<Rightarrow> nat \<Rightarrow> rat \<Rightarrow> event list \<Rightarrow> (js_error + response) \<times> event list"
where
  "generateWithRetry remote params retries initialDelay w =
     retry_loop remote params retries 0 initialDelay w"

section \<open>JSON values\<close>

text \<open>
  What \<^verbatim>\<open>JSON.parse\<close> returns. \<^verbatim>\<open>JSON.parse\<close> belongs to the host, not to the program:
  the pipeline takes the parser as a parameter, a function that returns \<open>None\<close> where
  \<^verbatim>\<open>JSON.parse\<close> throws.
\<close>

datatype json =
    JsonNull
  | JsonBool bool
  | JsonNumber rat
  | JsonString jsstring
  | JsonArray "json list"
  | JsonObject "(jsstring \<times> json) list"

type_synonym json_parser = "jsstring \<Rightarrow> json option"

section \<open>generateAnalysis\<close>

text \<open>
  An asynchronous computation takes the trace so far and returns the thrown error or its
  value, with the extended trace. \<open>await m f\<close> runs \<open>m\<close> and passes its value to
  \<open>f\<close>; an error thrown by \<open>m\<close> leaves the function at once.
\<close>

type_synonym 'a async = "event list \<Rightarrow> (js_error + 'a) \<times> event list"

definition await :: "'a async \<Rightarrow> ('a \<Rightarrow> 'b async) \<Rightarrow> 'b async" where
  "await m f w = (case m w of (Inl e, w') \<Rightarrow> (Inl e, w') | (Inr x, w') \<Rightarrow> f x w')"

definition resolve :: "'a \<Rightarrow> 'a async" where
  "resolve x w = (Inr x, w)"

definition delay :: "rat \<Rightarrow> unit async" where
  "delay ms w = (Inr (), w @ [Sleep ms])"

definition onProgress :: "jsstring \<Rightarrow> unit async" where
  "onProgress step w = (Inr (), w @ [Progress step])"

text \<open>\<^verbatim>\<open>a || b\<close> on a string or \<^verbatim>\<open>undefined\<close>: \<^verbatim>\<open>undefined\<close> and the empty string are falsy.\<close>

definition js_or :: "jsstring option \<Rightarrow> jsstring \<Rightarrow> jsstring" where
  "js_or a b = (case a of None \<Rightarrow> b | Some s \<Rightarrow> if s = [] then b else s)"

definition MODEL_NAME :: jsstring where
  "MODEL_NAME = ustr ''gemini-3-pro-preview''"

text \<open>
  The fixed instruction texts, character for character (template literals).
  \<open>systemInstructionText\<close> is the constant \<^verbatim>\<open>systemInstruction\<close> of the source; the
  texts of stages 1 and 2 are written inline there.
\<close>

definition systemInstructionText :: "jsstring" where
  "systemInstructionText =
     ustr (''\<newline>'' @
          ''    You are ScholarMate, a senior research scientist, ML engineer, and academic reviewer combined.\<newline>'' @
          ''    Your job is to transform research papers into accurate, grounded, reproducible research artifacts.\<newline>'' @
          ''    \<newline>'' @
          ''    STRICT RULES:\<newline>'' @
          ''    - Use ONLY the provided paper context.\<newline>'' @
          ''    - Never hallucinate facts, numbers, or results.\<newline>'' @
          ''    - If information is missing, explicitly say: '') @
     [34] @
     ustr (''Not specified in the paper.'') @
     [34] @
     ustr (''\<newline>'' @
          ''    - Be precise, technical, and concise.\<newline>'' @
          ''    - Prefer correctness over verbosity.\<newline>'' @
          ''    - Assume the user is a technical student or researcher.\<newline>'' @
          ''    - All outputs must be structured, evaluable, and demo-ready.\<newline>'' @
          ''  '')"

definition summaryPrompt :: "jsstring" where
  "summaryPrompt =
     ustr (''\<newline>'' @
          ''        Analyze this paper and provide a comprehensive, structured technical summary.\<newline>'' @
          ''        \<newline>'' @
          ''        Output Structure (Markdown):\<newline>'' @
          ''        \<newline>'' @
          ''        ## 1. Executive Summary\<newline>'' @
          ''        *   **Context**: The broader field and specific problem addressed.\<newline>'' @
          ''        *   **Core Contribution**: The main innovation or thesis.\<newline>'' @
          ''        *   **Impact**: Why this work is significant.\<newline>'' @
          ''\<newline>'' @
          ''        ## 2. Methodology & Architecture\<newline>'' @
          ''        *   **Theoretical Basis**: Mathematical or theoretical foundation.\<newline>'' @
          ''        *   **System Design**: Key components/algorithms.\<newline>'' @
          ''        *   **Data Strategy**: Collection/generation methods.\<newline>'' @
          ''\<newline>'' @
          ''        ## 3. Key Findings\<newline>'' @
          ''        *   **Metrics**: Specific numerical results (SOTA comparison, accuracy).\<newline>'' @
          ''        *   **Evidence**: Description of key graphs/visuals.\<newline>'' @
          ''\<newline>'' @
          ''        ## 4. Conclusions\<newline>'' @
          ''        *   Authors'') @
     [39] @
     ustr ('' final stance and future work.\<newline>'' @
          ''        '')"

definition critiquePrompt :: "jsstring" where
  "critiquePrompt =
     ustr (''\<newline>'' @
          ''        You are acting as an academic reviewer.\<newline>'' @
          ''\<newline>'' @
          ''        TASK:\<newline>'' @
          ''        Identify EXACTLY THREE concrete weaknesses or limitations of the paper.\<newline>'' @
          ''\<newline>'' @
          ''        REQUIREMENTS:\<newline>'' @
          ''        - Each point must be specific and technical.\<newline>'' @
          ''        - Base each critique ONLY on what is stated or clearly missing in the paper.\<newline>'' @
          ''        - Avoid generic criticism.\<newline>'' @
          ''        - Focus on:\<newline>'' @
          ''          - experimental design\<newline>'' @
          ''          - dataset limitations\<newline>'' @
          ''          - evaluation methodology\<newline>'' @
          ''          - scalability or reproducibility\<newline>'' @
          ''\<newline>'' @
          ''        OUTPUT FORMAT (Markdown):\<newline>'' @
          ''        1. **Short Title**: Explanation (2'') @
     [8211] @
     ustr (''3 concise technical sentences).\<newline>'' @
          ''        2. **Short Title**: Explanation (2'') @
     [8211] @
     ustr (''3 concise technical sentences).\<newline>'' @
          ''        3. **Short Title**: Explanation (2'') @
     [8211] @
     ustr (''3 concise technical sentences).\<newline>'' @
          ''        '')"

definition experimentPrompt :: "jsstring" where
  "experimentPrompt =
     ustr (''\<newline>'' @
          ''    Design ONE reproducible mini-experiment inspired by the paper.\<newline>'' @
          ''\<newline>'' @
          ''    GOAL:\<newline>'' @
          ''    The experiment must help a student understand or validate\<newline>'' @
          ''    a core idea from the paper.\<newline>'' @
          ''\<newline>'' @
          ''    STRICT CONSTRAINTS:\<newline>'' @
          ''    - Must run in under 5 minutes on a laptop.\<newline>'' @
          ''    - Use only standard Python libraries (sklearn, numpy, pandas, matplotlib).\<newline>'' @
          ''    - Must be educational and realistic.\<newline>'' @
          ''\<newline>'' @
          ''    REQUIREMENTS:\<newline>'' @
          ''    - If no dataset is provided, use a small synthetic dataset.\<newline>'' @
          ''    - Clearly define:\<newline>'' @
          ''      - Objective\<newline>'' @
          ''      - Data\<newline>'' @
          ''      - Method\<newline>'' @
          ''      - Evaluation metric\<newline>'' @
          ''    - Do NOT overcomplicate.\<newline>'' @
          ''\<newline>'' @
          ''    OUTPUT FORMAT (Use Markdown):\<newline>'' @
          ''    **Experiment Objective**: [text]\<newline>'' @
          ''    \<newline>'' @
          ''    **Data Description**: [text]\<newline>'' @
          ''    \<newline>'' @
          ''    **Method**: [text]\<newline>'' @
          ''    \<newline>'' @
          ''    **Evaluation Metric**: [text]\<newline>'' @
          ''    \<newline>'' @
          ''    **Expected Outcome**: [text]\<newline>'' @
          ''  '')"

definition codePrompt :: "jsstring \<Rightarrow> jsstring" where
  "codePrompt experimentPlan =
     ustr (''\<newline>'' @
          ''    Generate runnable Python code for the experiment described below.\<newline>'' @
          ''\<newline>'' @
          ''    Experiment Plan:\<newline>'' @
          ''    '') @
     experimentPlan @
     ustr (''\<newline>'' @
          ''\<newline>'' @
          ''    STRICT RULES:\<newline>'' @
          ''    - Use ONLY these libraries: numpy, pandas, scikit-learn, matplotlib\<newline>'' @
          ''    - Do NOT use deep learning frameworks.\<newline>'' @
          ''    - Do NOT use external files or APIs.\<newline>'' @
          ''    - Generate any required data inside the code (e.g. using numpy.random or sklearn.datasets).\<newline>'' @
          ''    - The code MUST run top-to-bottom with no edits.\<newline>'' @
          ''\<newline>'' @
          ''    TASK:\<newline>'' @
          ''    Implement the experiment exactly as described in the plan.\<newline>'' @
          ''    Ensure strict reproducibility and clear output of results.\<newline>'' @
          ''\<newline>'' @
          ''    OUTPUT FORMAT:\<newline>'' @
          ''    - Output ONLY valid Python code.\<newline>'' @
          ''    - Add comments to explain necessary lines and how they relate to the paper'') @
     [39] @
     ustr (''s concepts.\<newline>'' @
          ''  '')"

definition slidesPrompt :: "jsstring \<Rightarrow> jsstring \<Rightarrow> jsstring" where
  "slidesPrompt summary experimentPlan =
     ustr (''\<newline>'' @
          ''    Create content for a 5-slide technical presentation summarizing the paper and experiment.\<newline>'' @
          ''    \<newline>'' @
          ''    Context:\<newline>'' @
          ''    '') @
     summary @
     ustr (''\<newline>'' @
          ''    '') @
     experimentPlan @
     ustr (''\<newline>'' @
          ''\<newline>'' @
          ''    TASK:\<newline>'' @
          ''    Create slide text summarizing the paper and experiment.\<newline>'' @
          ''\<newline>'' @
          ''    SLIDE STRUCTURE:\<newline>'' @
          ''    1. Problem & Motivation\<newline>'' @
          ''    2. Core Idea\<newline>'' @
          ''    3. Method Overview\<newline>'' @
          ''    4. Reproducible Experiment\<newline>'' @
          ''    5. Key Takeaways & Next Steps\<newline>'' @
          ''\<newline>'' @
          ''    REQUIREMENTS:\<newline>'' @
          ''    - Each slide must have:\<newline>'' @
          ''      - A clear title\<newline>'' @
          ''      - 3'') @
     [8211] @
     ustr (''5 concise bullet points\<newline>'' @
          ''    - Use technical but simple language.\<newline>'' @
          ''    - Avoid marketing language.\<newline>'' @
          ''    \<newline>'' @
          ''    Return JSON array.\<newline>'' @
          ''  '')"

definition interpretationPrompt :: "jsstring \<Rightarrow> jsstring" where
  "interpretationPrompt experimentPlan =
     ustr (''\<newline>'' @
          ''    Interpret the EXPECTED results of the mini-experiment described below.\<newline>'' @
          ''\<newline>'' @
          ''    Experiment Plan:\<newline>'' @
          ''    '') @
     experimentPlan @
     ustr (''\<newline>'' @
          ''\<newline>'' @
          ''    TASK:\<newline>'' @
          ''    Explain what the results demonstrate in relation to the paper.\<newline>'' @
          ''\<newline>'' @
          ''    REQUIREMENTS:\<newline>'' @
          ''    - Max 150 words.\<newline>'' @
          ''    - Be honest about limitations (since it uses synthetic data).\<newline>'' @
          ''    - Do not exaggerate conclusions.\<newline>'' @
          ''    - Focus on educational value.\<newline>'' @
          ''  '')"

definition validationPrompt :: "jsstring \<Rightarrow> jsstring \<Rightarrow> jsstring \<Rightarrow> jsstring" where
  "validationPrompt summary critique experimentPlan =
     ustr (''\<newline>'' @
          ''    Validate the following generated research artifacts against the original paper.\<newline>'' @
          ''\<newline>'' @
          ''    Artifacts to Check:\<newline>'' @
          ''    1. Summary: '') @
     summary @
     ustr (''\<newline>'' @
          ''    2. Critique: '') @
     critique @
     ustr (''\<newline>'' @
          ''    3. Experiment Plan: '') @
     experimentPlan @
     ustr (''\<newline>'' @
          ''\<newline>'' @
          ''    TASK:\<newline>'' @
          ''    Check for:\<newline>'' @
          ''    - Hallucinated claims\<newline>'' @
          ''    - Inconsistencies between summary, critique, and experiment\<newline>'' @
          ''    - Unsupported assumptions\<newline>'' @
          ''\<newline>'' @
          ''    If issues exist, list them clearly.\<newline>'' @
          ''    If none exist, output:\<newline>'' @
          ''    '') @
     [34] @
     ustr (''Outputs are internally consistent and grounded.'') @
     [34] @
     ustr (''\<newline>'' @
          ''  '')"

text \<open>
  \<^verbatim>\<open>{ type: ARRAY, items: { type: OBJECT, properties: { title: { type: STRING },
  bullets: { type: ARRAY, items: { type: STRING } } }, required: ["title", "bullets"] } }\<close>
\<close>

definition slidesSchema :: schema where
  "slidesSchema =
     SchemaArray
       (SchemaObject
          [(ustr ''title'', SchemaString), (ustr ''bullets'', SchemaArray SchemaString)]
          [ustr ''title'', ustr ''bullets''])"

text \<open>\<^verbatim>\<open>[{ title: "Error", bullets: ["Failed to generate slides data."] }]\<close>\<close>

definition slides_placeholder :: json where
  "slides_placeholder =
     JsonArray
       [JsonObject
          [(ustr ''title'', JsonString (ustr ''Error'')),
           (ustr ''bullets'', JsonArray [JsonString (ustr ''Failed to generate slides data.'')])]]"

text \<open>
  \<^verbatim>\<open>try { slides = JSON.parse(cleanJson(slidesResp.text || "[]")); }
  catch (e) { console.error("Failed to parse slides JSON", e); slides = [...]; }\<close>
\<close>

definition parse_slides :: "json_parser \<Rightarrow> response \<Rightarrow> json async" where
  "parse_slides JSON_parse slidesResp w =
     (case JSON_parse (cleanJson (js_or (resp_text slidesResp) (ustr ''[]''))) of
        Some slides \<Rightarrow> (Inr slides, w)
      | None \<Rightarrow>
          (Inr slides_placeholder, w @ [ConsoleError (ustr ''Failed to parse slides JSON'')]))"

record analysis_result =
  summary :: jsstring
  critique :: jsstring
  experimentPlan :: jsstring
  pythonCode :: jsstring
  experimentInterpretation :: jsstring
  validationReport :: jsstring
  slides :: json

text \<open>
  The seven stages in the order of the source. The progress callback is the caller's
  function: a call of it is an event of the trace, and it is taken not to throw. Every
  \<^verbatim>\<open>generateWithRetry\<close> is called with its defaults, 10 attempts and an initial delay
  of 10000.
\<close>

definition generateAnalysis ::
  "json_parser \<Rightarrow> remote \<Rightarrow> jsstring \<Rightarrow> jsstring \<Rightarrow> analysis_result async"
where
  "generateAnalysis JSON_parse remote fileBase64 mimeType =
     (let filePart = InlineData mimeType fileBase64 in
      await (onProgress (ustr ''Step 1/7: Generating Deep Summary...'')) (\<lambda>_.
      await (generateWithRetry remote
               \<lparr>model = MODEL_NAME,
                config = Some \<lparr>systemInstruction = Some systemInstructionText,
                                responseMimeType = None, responseSchema = None\<rparr>,
                parts = [filePart, TextPart summaryPrompt]\<rparr> 10 10000) (\<lambda>summaryResp.
      let summary = js_or (resp_text summaryResp) (ustr ''Failed to generate summary.'') in
      await (delay 12000) (\<lambda>_.
      await (onProgress (ustr ''Step 2/7: Generating Critical Review...'')) (\<lambda>_.
      await (generateWithRetry remote
               \<lparr>model = MODEL_NAME,
                config = Some \<lparr>systemInstruction = Some systemInstructionText,
                                responseMimeType = None, responseSchema = None\<rparr>,
                parts = [filePart, TextPart critiquePrompt]\<rparr> 10 10000) (\<lambda>critiqueResp.
      let critique = js_or (resp_text critiqueResp) (ustr ''Failed to generate critique.'') in
      await (delay 12000) (\<lambda>_.
      await (onProgress (ustr ''Step 3/7: Designing Experiment...'')) (\<lambda>_.
      await (generateWithRetry remote
               \<lparr>model = MODEL_NAME,
                config = Some \<lparr>systemInstruction = Some systemInstructionText,
                                responseMimeType = None, responseSchema = None\<rparr>,
                parts = [filePart, TextPart experimentPrompt]\<rparr> 10 10000) (\<lambda>experimentResp.
      let experimentPlan =
            js_or (resp_text experimentResp) (ustr ''Failed to generate experiment plan.'') in
      await (delay 12000) (\<lambda>_.
      await (onProgress (ustr ''Step 4/7: Generating Python Code...'')) (\<lambda>_.
      await (generateWithRetry remote
               \<lparr>model = MODEL_NAME, config = None,
                parts = [TextPart (codePrompt experimentPlan)]\<rparr> 10 10000) (\<lambda>codeResp.
      let pythonCode = cleanCode (js_or (resp_text codeResp) (ustr ''# Failed to generate code.'')) in
      await (delay 12000) (\<lambda>_.
      await (onProgress (ustr ''Step 5/7: Generating Presentation Slides...'')) (\<lambda>_.
      await (generateWithRetry remote
               \<lparr>model = MODEL_NAME,
                config = Some \<lparr>systemInstruction = None,
                                responseMimeType = Some (ustr ''application/json''),
                                responseSchema = Some slidesSchema\<rparr>,
                parts = [filePart, TextPart (slidesPrompt summary experimentPlan)]\<rparr>
               10 10000) (\<lambda>slidesResp.
      await (parse_slides JSON_parse slidesResp) (\<lambda>slides.
      await (delay 12000) (\<lambda>_.
      await (onProgress (ustr ''Step 6/7: Generating Interpretation...'')) (\<lambda>_.
      await (generateWithRetry remote
               \<lparr>model = MODEL_NAME, config = None,
                parts = [TextPart (interpretationPrompt experimentPlan)]\<rparr>
               10 10000) (\<lambda>interpretationResp.
      let experimentInterpretation =
            js_or (resp_text interpretationResp) (ustr ''Failed to generate interpretation.'') in
      await (delay 12000) (\<lambda>_.
      await (onProgress (ustr ''Step 7/7: Validating Results...'')) (\<lambda>_.
      await (generateWithRetry remote
               \<lparr>model = MODEL_NAME, config = None,
                parts = [filePart,
                         TextPart (validationPrompt summary critique experimentPlan)]\<rparr>
               10 10000) (\<lambda>validationResp.
      let validationReport = js_or (resp_text validationResp) (ustr ''Validation check failed.'') in
      resolve
        \<lparr>summary = summary,
         critique = critique,
         experimentPlan = experimentPlan,
         pythonCode = pythonCode,
         experimentInterpretation = experimentInterpretation,
         validationReport = validationReport,
         slides = slides\<rparr>))))))))))))))))))))))"


section \<open>The validation view\<close>

text \<open>
  The heading that the validation view of \<^verbatim>\<open>App.tsx\<close> renders for a report:
  \<^verbatim>\<open>result.validationReport.includes("consistent and grounded") ? "Validation Passed"
  : "Issues Detected"\<close>.
\<close>

definition validation_heading :: "jsstring \<Rightarrow> jsstring" where
  "validation_heading report =
     (if js_includes report (ustr ''consistent and grounded'')
      then ustr ''Validation Passed'' else ustr ''Issues Detected'')"

section \<open>Auxiliary definitions used in the statements\<close>

text \<open>
  The events of \<open>n\<close> rate-limited attempts in a row, from iteration \<open>i\<close> with delay
  \<open>d\<close>: each is the call, the retry notice and the awaited delay.
\<close>

fun retry_trace :: "request \<Rightarrow> nat \<Rightarrow> nat \<Rightarrow> rat \<Rightarrow> nat \<Rightarrow> event list" where
  "retry_trace params retries i d 0 = []"
| "retry_trace params retries i d (Suc n) =
     [Call params, ConsoleWarn (i + 1) retries d, Sleep d] @
     retry_trace params retries (i + 1) (d * (3 / 2)) n"

text \<open>An endpoint that rejects its first \<open>n\<close> calls with \<open>e\<close> and then answers \<open>final\<close>.\<close>

definition fails_then :: "nat \<Rightarrow> js_error \<Rightarrow> outcome \<Rightarrow> remote" where
  "fails_then n e final = (\<lambda>k params. if k < n then Rejects e else final)"

definition rate_limit_error :: js_error where
  "rate_limit_error =
     \<lparr>status = JNumber 429, code = JUndefined, message = Some (ustr ''Too Many Requests'')\<rparr>"

definition server_error :: js_error where
  "server_error =
     \<lparr>status = JNumber 500, code = JUndefined, message = Some (ustr ''Internal error'')\<rparr>"

definition ok_response :: response where
  "ok_response = \<lparr>resp_text = Some (ustr ''ok'')\<rparr>"

definition sample_request :: request where
  "sample_request =
     \<lparr>model = ustr ''gemini-3-pro-preview'', config = None, parts = [TextPart (ustr ''hello'')]\<rparr>"

text \<open>
  The fence-stripping steps in direct form: what each \<^verbatim>\<open>replace\<close> of \<^verbatim>\<open>cleanCode\<close>
  does to a text, stated without regular expressions.
\<close>

definition endsWith :: "jsstring \<Rightarrow> jsstring \<Rightarrow> bool" where
  "endsWith s p = (length p \<le> length s \<and> drop (length s - length p) s = p)"

fun startsWith_ignoring_case :: "jsstring \<Rightarrow> jsstring \<Rightarrow> bool" where
  "startsWith_ignoring_case s [] = True"
| "startsWith_ignoring_case [] (c # cs) = False"
| "startsWith_ignoring_case (x # xs) (c # cs) =
     (x < 128 \<and> to_upper_ascii x = to_upper_ascii c \<and> startsWith_ignoring_case xs cs)"

definition strip_python_fence :: "jsstring \<Rightarrow> jsstring" where
  "strip_python_fence t =
     (if startsWith_ignoring_case t (ustr ''```python'')
      then dropWhile is_space (drop 9 t) else t)"

definition strip_leading_fence :: "jsstring \<Rightarrow> jsstring" where
  "strip_leading_fence t =
     (if startsWith t (ustr ''```'') then dropWhile is_space (drop 3 t) else t)"

definition trim_end :: "jsstring \<Rightarrow> jsstring" where
  "trim_end s = rev (dropWhile is_space (rev s))"

definition strip_trailing_fence :: "jsstring \<Rightarrow> jsstring" where
  "strip_trailing_fence t =
     (if endsWith (trim_end t) (ustr ''```'')
      then take (length (trim_end t) - 3) (trim_end t) else t)"

text \<open>
  The stripping rule in the words "strip a leading language-tagged fence if present,
  else a leading generic fence; strip a trailing generic fence; trim".
\<close>

definition cleanCode_as_claimed :: "jsstring \<Rightarrow> jsstring" where
  "cleanCode_as_claimed t =
     trim (strip_trailing_fence
       (if startsWith_ignoring_case t (ustr ''```python'')
        then strip_python_fence t else strip_leading_fence t))"

text \<open>The requests of a trace, in the order of the calls.\<close>

fun calls :: "event list \<Rightarrow> request list" where
  "calls [] = []"
| "calls (Call p # w) = p # calls w"
| "calls (e # w) = calls w"

text \<open>
  The request of each stage, as a function of the attached document and of the outputs
  of the earlier stages that its instruction text embeds.
\<close>

definition summaryRequest :: "part \<Rightarrow> request" where
  "summaryRequest filePart =
     \<lparr>model = MODEL_NAME,
      config = Some \<lparr>systemInstruction = Some systemInstructionText,
                      responseMimeType = None, responseSchema = None\<rparr>,
      parts = [filePart, TextPart summaryPrompt]\<rparr>"

definition critiqueRequest :: "part \<Rightarrow> request" where
  "critiqueRequest filePart =
     \<lparr>model = MODEL_NAME,
      config = Some \<lparr>systemInstruction = Some systemInstructionText,
                      responseMimeType = None, responseSchema = None\<rparr>,
      parts = [filePart, TextPart critiquePrompt]\<rparr>"

definition experimentRequest :: "part \<Rightarrow> request" where
  "experimentRequest filePart =
     \<lparr>model = MODEL_NAME,
      config = Some \<lparr>systemInstruction = Some systemInstructionText,
                      responseMimeType = None, responseSchema = None\<rparr>,
      parts = [filePart, TextPart experimentPrompt]\<rparr>"

definition codeRequest :: "jsstring \<Rightarrow> request" where
  "codeRequest plan =
     \<lparr>model = MODEL_NAME, config = None, parts = [TextPart (codePrompt plan)]\<rparr>"

definition slidesRequest :: "part \<Rightarrow> jsstring \<Rightarrow> jsstring \<Rightarrow> request" where
  "slidesRequest filePart summ plan =
     \<lparr>model = MODEL_NAME,
      config = Some \<lparr>systemInstruction = None,
                      responseMimeType = Some (ustr ''application/json''),
                      responseSchema = Some slidesSchema\<rparr>,
      parts = [filePart, TextPart (slidesPrompt summ plan)]\<rparr>"

definition interpretationRequest :: "jsstring \<Rightarrow> request" where
  "interpretationRequest plan =
     \<lparr>model = MODEL_NAME, config = None, parts = [TextPart (interpretationPrompt plan)]\<rparr>"

definition validationRequest :: "part \<Rightarrow> jsstring \<Rightarrow> jsstring \<Rightarrow> jsstring \<Rightarrow> request" where
  "validationRequest filePart summ crit plan =
     \<lparr>model = MODEL_NAME, config = None,
      parts = [filePart, TextPart (validationPrompt summ crit plan)]\<rparr>"

definition stage_requests :: "part \<Rightarrow> jsstring \<Rightarrow> jsstring \<Rightarrow> jsstring \<Rightarrow> request list" where
  "stage_requests filePart summ crit plan =
     [summaryRequest filePart, critiqueRequest filePart, experimentRequest filePart,
      codeRequest plan, slidesRequest filePart summ plan, interpretationRequest plan,
      validationRequest filePart summ crit plan]"

text \<open>The system instruction of a request, if its configuration has one.\<close>

definition system_instruction_of :: "request \<Rightarrow> jsstring option" where
  "system_instruction_of q = (case config q of None \<Rightarrow> None | Some c \<Rightarrow> systemInstruction c)"

text \<open>The slide list that stage 5 derives from a response.\<close>

definition slides_of :: "json_parser \<Rightarrow> response \<Rightarrow> json" where
  "slides_of JSON_parse slidesResp =
     (case JSON_parse (cleanJson (js_or (resp_text slidesResp) (ustr ''[]''))) of
        Some v \<Rightarrow> v
      | None \<Rightarrow> slides_placeholder)"

text \<open>
  A reference parser for the fragment of JSON that the slide schema uses: arrays,
  objects, strings without escape sequences and the three literals, with JSON white
  space. It returns \<open>None\<close> on every other text. It instantiates the parser parameter
  in concrete runs, on texts of the fragment and on texts that are no JSON at all.
\<close>

definition json_ws :: "nat \<Rightarrow> bool" where
  "json_ws c = (c = 32 \<or> c = 9 \<or> c = 10 \<or> c = 13)"

fun json_string_body :: "jsstring \<Rightarrow> (jsstring \<times> jsstring) option" where
  "json_string_body [] = None"
| "json_string_body (x # xs) =
     (if x = 34 then Some ([], xs)
      else if x = 92 \<or> x < 32 then None
      else (case json_string_body xs of
              None \<Rightarrow> None
            | Some (cs, rest) \<Rightarrow> Some (x # cs, rest)))"

fun json_value :: "nat \<Rightarrow> jsstring \<Rightarrow> (json \<times> jsstring) option"
  and json_elements :: "nat \<Rightarrow> jsstring \<Rightarrow> (json list \<times> jsstring) option"
  and json_members :: "nat \<Rightarrow> jsstring \<Rightarrow> ((jsstring \<times> json) list \<times> jsstring) option"
where
  "json_value 0 s = None"
| "json_value (Suc n) s =
     (case dropWhile json_ws s of
        [] \<Rightarrow> None
      | c # r \<Rightarrow>
          if c = 91 then
            (case dropWhile json_ws r of
               [] \<Rightarrow> None
             | c' # r' \<Rightarrow>
                 if c' = 93 then Some (JsonArray [], r')
                 else (case json_elements n r of
                         None \<Rightarrow> None
                       | Some (vs, rest) \<Rightarrow> Some (JsonArray vs, rest)))
          else if c = 123 then
            (case dropWhile json_ws r of
               [] \<Rightarrow> None
             | c' # r' \<Rightarrow>
                 if c' = 125 then Some (JsonObject [], r')
                 else (case json_members n r of
                         None \<Rightarrow> None
                       | Some (ms, rest) \<Rightarrow> Some (JsonObject ms, rest)))
          else if c = 34 then
            (case json_string_body r of
               None \<Rightarrow> None
             | Some (cs, rest) \<Rightarrow> Some (JsonString cs, rest))
          else if startsWith (c # r) (ustr ''null'') then Some (JsonNull, drop 4 (c # r))
          else if startsWith (c # r) (ustr ''true'') then Some (JsonBool True, drop 4 (c # r))
          else if startsWith (c # r) (ustr ''false'') then Some (JsonBool False, drop 5 (c # r))
          else None)"
| "json_elements 0 s = None"
| "json_elements (Suc n) s =
     (case json_value n s of
        None \<Rightarrow> None
      | Some (v, r) \<Rightarrow>
          (case dropWhile json_ws r of
             [] \<Rightarrow> None
           | c # r' \<Rightarrow>
               if c = 44 then
                 (case json_elements n r' of
                    None \<Rightarrow> None
                  | Some (vs, rest) \<Rightarrow> Some (v # vs, rest))
               else if c = 93 then Some ([v], r')
               else None))"
| "json_members 0 s = None"
| "json_members (Suc n) s =
     (case dropWhile json_ws s of
        [] \<Rightarrow> None
      | c # r \<Rightarrow>
          if c = 34 then
            (case json_string_body r of
               None \<Rightarrow> None
             | Some (k, r1) \<Rightarrow>
                 (case dropWhile json_ws r1 of
                    [] \<Rightarrow> None
                  | c1 # r2 \<Rightarrow>
                      if c1 = 58 then
                        (case json_value n r2 of
                           None \<Rightarrow> None
                         | Some (v, r3) \<Rightarrow>
                             (case dropWhile json_ws r3 of
                                [] \<Rightarrow> None
                              | c3 # r4 \<Rightarrow>
                                  if c3 = 44 then
                                    (case json_members n r4 of
                                       None \<Rightarrow> None
                                     | Some (ms, rest) \<Rightarrow> Some ((k, v) # ms, rest))
                                  else if c3 = 125 then Some ([(k, v)], r4)
                                  else None))
                      else None))
          else None)"

definition json_parse_fragment :: json_parser where
  "json_parse_fragment s =
     (case json_value (Suc (length s)) s of
        None \<Rightarrow> None
      | Some (v, rest) \<Rightarrow> if dropWhile json_ws rest = [] then Some v else None)"

text \<open>An endpoint that answers the \<open>k\<close>-th call with the \<open>k\<close>-th response of a list.\<close>

definition answers :: "response list \<Rightarrow> remote" where
  "answers rs = (\<lambda>k params. if k < length rs then Resolves (rs ! k) else Rejects server_error)"


text \<open>
  The events between two stages: the fixed delay after the earlier stage (none before
  stage 1) and the progress notice of the stage that starts.
\<close>

definition step_labels :: "jsstring list" where
  "step_labels =
     [ustr ''Step 1/7: Generating Deep Summary...'',
      ustr ''Step 2/7: Generating Critical Review...'',
      ustr ''Step 3/7: Designing Experiment...'',
      ustr ''Step 4/7: Generating Python Code...'',
      ustr ''Step 5/7: Generating Presentation Slides...'',
      ustr ''Step 6/7: Generating Interpretation...'',
      ustr ''Step 7/7: Validating Results...'']"

definition stage_start :: "nat \<Rightarrow> event list" where
  "stage_start k = (if k = 1 then [] else [Sleep 12000]) @ [Progress (step_labels ! (k - 1))]"

text \<open>What the parse step of stage 5 logs: nothing, or the parse failure.\<close>

definition parse_log :: "json_parser \<Rightarrow> response \<Rightarrow> event list" where
  "parse_log JSON_parse slidesResp =
     (case JSON_parse (cleanJson (js_or (resp_text slidesResp) (ustr ''[]''))) of
        Some v \<Rightarrow> []
      | None \<Rightarrow> [ConsoleError (ustr ''Failed to parse slides JSON'')])"

text \<open>The output of each text stage, from the response the stage received.\<close>

definition summary_of :: "response \<Rightarrow> jsstring" where
  "summary_of r = js_or (resp_text r) (ustr ''Failed to generate summary.'')"

definition critique_of :: "response \<Rightarrow> jsstring" where
  "critique_of r = js_or (resp_text r) (ustr ''Failed to generate critique.'')"

definition plan_of :: "response \<Rightarrow> jsstring" where
  "plan_of r = js_or (resp_text r) (ustr ''Failed to generate experiment plan.'')"

definition code_of :: "response \<Rightarrow> jsstring" where
  "code_of r = cleanCode (js_or (resp_text r) (ustr ''# Failed to generate code.''))"

definition interpretation_of :: "response \<Rightarrow> jsstring" where
  "interpretation_of r = js_or (resp_text r) (ustr ''Failed to generate interpretation.'')"

definition validation_of :: "response \<Rightarrow> jsstring" where
  "validation_of r = js_or (resp_text r) (ustr ''Validation check failed.'')"


text \<open>An input document for concrete runs.\<close>

definition sample_file :: jsstring where
  "sample_file = ustr ''JVBERi0xLjQK''"

definition sample_mime :: jsstring where
  "sample_mime = ustr ''application/pdf''"

text \<open>Responses for concrete runs: without text, with an empty text, with a slide list and
  with a text that is no JSON.\<close>

definition no_text :: response where
  "no_text = \<lparr>resp_text = None\<rparr>"

definition empty_text :: response where
  "empty_text = \<lparr>resp_text = Some []\<rparr>"

definition slides_text :: jsstring where
  "slides_text =
     ustr ''[{'' @ [34] @ ustr ''title'' @ [34] @ ustr '': '' @ [34] @ ustr ''Core Idea'' @ [34] @
     ustr '', '' @ [34] @ ustr ''bullets'' @ [34] @ ustr '': ['' @ [34] @ ustr ''one'' @ [34] @
     ustr '', '' @ [34] @ ustr ''two'' @ [34] @ ustr '']}]''"

definition slides_response :: response where
  "slides_response = \<lparr>resp_text = Some slides_text\<rparr>"


definition sample_responses :: "response list" where
  "sample_responses =
     [ok_response, ok_response, ok_response, ok_response, slides_response, ok_response,
      ok_response]"


section \<open>Properties of generateWithRetry\<close>

lemma attempts_Nil [simp]: "attempts [] = 0"
  by (simp add: attempts_def)

lemma attempts_append [simp]: "attempts (w @ v) = attempts w + attempts v"
  by (simp add: attempts_def)

lemma attempts_Cons [simp]: "attempts (e # w) = (if is_call e then 1 else 0) + attempts w"
  by (simp add: attempts_def)

lemma attempts_retry_trace [simp]: "attempts (retry_trace params retries i d n) = n"
  by (induction n arbitrary: i d) simp_all

declare retry_loop.simps [simp del]

lemma retry_loop_retries:
  assumes "\<forall>k<n. \<exists>e. remote (attempts w + k) params = Rejects e \<and> isRateLimit e"
    and "i + n < retries"
  shows "retry_loop remote params retries i d w =
         retry_loop remote params retries (i + n) (d * (3 / 2) ^ n)
           (w @ retry_trace params retries i d n)"
  using assms
proof (induction n arbitrary: i d w)
  case 0
  then show ?case by simp
next
  case (Suc n)
  from Suc.prems(1) obtain e where e: "remote (attempts w) params = Rejects e" "isRateLimit e"
    by force
  let ?w = "w @ [Call params, ConsoleWarn (i + 1) retries d, Sleep d]"
  have step: "retry_loop remote params retries i d w =
              retry_loop remote params retries (i + 1) (d * (3 / 2)) ?w"
  proof -
    from Suc.prems(2) have "i < retries" "i < retries - 1" by arith+
    with e show ?thesis by (subst retry_loop.simps) simp
  qed
  have "\<forall>k<n. \<exists>e. remote (attempts ?w + k) params = Rejects e \<and> isRateLimit e"
  proof (intro allI impI)
    fix k assume "k < n"
    then have "Suc k < Suc n" by simp
    with Suc.prems(1) have "\<exists>e. remote (attempts w + Suc k) params = Rejects e \<and> isRateLimit e"
      by blast
    then show "\<exists>e. remote (attempts ?w + k) params = Rejects e \<and> isRateLimit e"
      by simp
  qed
  moreover have "(i + 1) + n < retries" using Suc.prems(2) by simp
  ultimately have "retry_loop remote params retries (i + 1) (d * (3 / 2)) ?w =
      retry_loop remote params retries (i + 1 + n) (d * (3 / 2) * (3 / 2) ^ n)
        (?w @ retry_trace params retries (i + 1) (d * (3 / 2)) n)"
    by (rule Suc.IH)
  with step show ?case by (simp add: mult.assoc)
qed

lemma delays_append [simp]: "delays (w @ v) = delays w @ delays v"
  by (induction w rule: delays.induct) simp_all

lemma delays_retry_trace:
  "delays (retry_trace params retries i d n) = map (\<lambda>k. d * (3 / 2) ^ k) [0..<n]"
proof (induction n arbitrary: i d)
  case 0
  then show ?case by simp
next
  case (Suc n)
  have "map (\<lambda>k. d * (3 / 2) ^ k) [0..<Suc n] = d # map (\<lambda>k. d * (3 / 2) * (3 / 2) ^ k) [0..<n]"
    by (simp add: upt_rec [of 0] map_Suc_upt [symmetric] del: upt_Suc) 
  with Suc show ?case by simp
qed

lemma delays_before_retry_trace:
  "1 \<le> k \<Longrightarrow> k \<le> n \<Longrightarrow>
   delays_before_attempt (retry_trace params retries i d n @ [Call params]) (k + 1) =
     [d * (3 / 2) ^ (k - 1)]"
proof (induction n arbitrary: i d k)
  case 0
  then show ?case by simp
next
  case (Suc n)
  show ?case
  proof (cases "k = 1")
    case True
    then show ?thesis by (cases n) simp_all
  next
    case False
    with Suc.prems have k: "1 \<le> k - 1" "k - 1 \<le> n" by simp_all
    from Suc.IH [OF k, of "i + 1" "d * (3 / 2)"] False Suc.prems(1)
    have "delays_before_attempt (retry_trace params retries (i + 1) (d * (3 / 2)) n @ [Call params]) k
          = [d * (3 / 2) * (3 / 2) ^ (k - 2)]"
      by (simp add: numeral_2_eq_2)
    moreover have "(3 / 2 :: rat) * (3 / 2) ^ (k - 2) = (3 / 2) ^ (k - 1)"
      using False Suc.prems(1) by (cases k; cases "k - 1") simp_all
    ultimately show ?thesis using False Suc.prems(1) by (simp add: mult.assoc)
  qed
qed

lemma isRateLimit_iff:
  "isRateLimit e \<longleftrightarrow>
     \<not> (status e \<noteq> JNumber 429 \<and> code e \<noteq> JNumber 429 \<and>
        (\<forall>m. message e = Some m \<longrightarrow>
           \<not> js_includes m (ustr ''429'') \<and> \<not> js_includes m (ustr ''RESOURCE_EXHAUSTED'')))"
proof -
  have ne: "\<not> js_includes [] (ustr ''429'')" "\<not> js_includes [] (ustr ''RESOURCE_EXHAUSTED'')"
    by (simp_all add: ustr_def)
  show ?thesis
    using ne by (cases "message e") (auto simp: isRateLimit_def)
qed

lemma retry_loop_resolves:
  "i < retries \<Longrightarrow> remote (attempts w) params = Resolves r \<Longrightarrow>
   retry_loop remote params retries i d w = (Inr r, w @ [Call params])"
  by (subst retry_loop.simps) simp

lemma retry_loop_rethrows:
  "i < retries \<Longrightarrow> remote (attempts w) params = Rejects e \<Longrightarrow>
   \<not> (isRateLimit e \<and> i < retries - 1) \<Longrightarrow>
   retry_loop remote params retries i d w = (Inl e, w @ [Call params])"
  by (subst retry_loop.simps) auto

subsection \<open>Errors that are not rate-limit-classified\<close>

text \<open>
  Claim C6. Let the first \<open>n\<close> attempts (\<open>n\<close> may be 0) be rejected with
  rate-limit-classified errors, and let the next attempt be rejected with an error \<open>e\<close>
  whose status is not 429, whose code is not 429 and whose message contains neither
  \<^verbatim>\<open>429\<close> nor \<^verbatim>\<open>RESOURCE_EXHAUSTED\<close>. Then \<^verbatim>\<open>generateWithRetry\<close> throws \<open>e\<close>
  itself on that attempt: the trace ends with the rejected call, so no retry notice,
  no backoff delay and no further call follow it.
\<close>

theorem generateWithRetry_propagates_other_errors:
  assumes "n < retries"
    and "\<forall>k<n. \<exists>e'. remote (attempts w + k) params = Rejects e' \<and> isRateLimit e'"
    and "remote (attempts w + n) params = Rejects e"
    and "status e \<noteq> JNumber 429" and "code e \<noteq> JNumber 429"
    and "\<forall>m. message e = Some m \<longrightarrow>
           \<not> js_includes m (ustr ''429'') \<and> \<not> js_includes m (ustr ''RESOURCE_EXHAUSTED'')"
  shows "generateWithRetry remote params retries initialDelay w =
           (Inl e, w @ retry_trace params retries 0 initialDelay n @ [Call params])"
proof -
  let ?w = "w @ retry_trace params retries 0 initialDelay n"
  have "\<not> isRateLimit e"
    using assms(4-6) by (simp add: isRateLimit_iff)
  moreover have "remote (attempts ?w) params = Rejects e"
    using assms(3) by simp
  ultimately have "retry_loop remote params retries (0 + n) (initialDelay * (3 / 2) ^ n) ?w =
      (Inl e, ?w @ [Call params])"
    using assms(1) by (intro retry_loop_rethrows) simp_all
  moreover have "retry_loop remote params retries 0 initialDelay w =
      retry_loop remote params retries (0 + n) (initialDelay * (3 / 2) ^ n) ?w"
    using assms(1,2) by (intro retry_loop_retries) simp_all
  ultimately show ?thesis
    by (simp add: generateWithRetry_def)
qed

theorem generateWithRetry_propagates_other_errors_witness:
  "generateWithRetry (fails_then 2 rate_limit_error (Rejects server_error)) sample_request 10 10000 [] =
     (Inl server_error,
      [Call sample_request, ConsoleWarn 1 10 10000, Sleep 10000,
       Call sample_request, ConsoleWarn 2 10 15000, Sleep 15000,
       Call sample_request])"
proof -
  have "\<forall>k<2. \<exists>e'. fails_then 2 rate_limit_error (Rejects server_error) (attempts [] + k) sample_request
            = Rejects e' \<and> isRateLimit e'"
    by (simp add: fails_then_def rate_limit_error_def isRateLimit_def)
  moreover have "fails_then 2 rate_limit_error (Rejects server_error) (attempts [] + 2) sample_request
            = Rejects server_error"
    by (simp add: fails_then_def)
  moreover have "\<forall>m. message server_error = Some m \<longrightarrow>
           \<not> js_includes m (ustr ''429'') \<and> \<not> js_includes m (ustr ''RESOURCE_EXHAUSTED'')"
    by (simp add: server_error_def ustr_def)
  moreover have "status server_error \<noteq> JNumber 429" "code server_error \<noteq> JNumber 429"
    by (simp_all add: server_error_def)
  moreover have "(2::nat) < 10" by simp
  ultimately show ?thesis
    using generateWithRetry_propagates_other_errors
      [of 2 10 "fails_then 2 rate_limit_error (Rejects server_error)" "[]" sample_request
          server_error 10000]
    by (simp add: numeral_2_eq_2)
qed

subsection \<open>Success after rate-limited attempts\<close>

lemma delays_before_first_attempt:
  "delays_before_attempt (retry_trace params retries i d n @ [Call params]) 1 = []"
  by (cases n) simp_all

text \<open>
  Claim C5, amended. For every \<open>N < 10\<close>: if the remote call is rejected with a
  rate-limit-classified error exactly \<open>N\<close> times and then resolves, \<^verbatim>\<open>generateWithRetry\<close>
  (10 attempts, initial delay 10000) returns the response of the resolving call after
  exactly \<open>N + 1\<close> attempts. No delay is awaited before attempt 1, and the delay
  awaited after the \<open>k\<close>-th rejected attempt, that is before attempt \<open>k + 1\<close>, is
  \<open>10000 * 1.5 ^ (k - 1)\<close>, for \<open>1 \<le> k \<le> N\<close>.
\<close>

theorem generateWithRetry_succeeds_after_rate_limits:
  assumes "N < 10"
    and "\<forall>k<N. \<exists>e. remote (attempts w + k) params = Rejects e \<and> isRateLimit e"
    and "remote (attempts w + N) params = Resolves r"
  shows "\<exists>t. generateWithRetry remote params 10 10000 w = (Inr r, w @ t) \<and>
             attempts t = N + 1 \<and>
             delays_before_attempt t 1 = [] \<and>
             (\<forall>k. 1 \<le> k \<and> k \<le> N \<longrightarrow>
                  delays_before_attempt t (k + 1) = [10000 * (3 / 2) ^ (k - 1)]) \<and>
             delays t = map (\<lambda>j. 10000 * (3 / 2) ^ j) [0..<N]"
proof -
  let ?t = "retry_trace params 10 0 10000 N"
  have "remote (attempts (w @ ?t)) params = Resolves r"
    using assms(3) by simp
  then have "retry_loop remote params 10 (0 + N) (10000 * (3 / 2) ^ N) (w @ ?t) =
      (Inr r, (w @ ?t) @ [Call params])"
    using assms(1) by (intro retry_loop_resolves) simp_all
  moreover have "retry_loop remote params 10 0 10000 w =
      retry_loop remote params 10 (0 + N) (10000 * (3 / 2) ^ N) (w @ ?t)"
    using assms(1,2) by (intro retry_loop_retries) simp_all
  ultimately have "generateWithRetry remote params 10 10000 w = (Inr r, w @ (?t @ [Call params]))"
    by (simp add: generateWithRetry_def)
  moreover have "attempts (?t @ [Call params]) = N + 1"
    by simp
  moreover have "delays_before_attempt (?t @ [Call params]) 1 = []"
    by (rule delays_before_first_attempt)
  moreover have "\<forall>k. 1 \<le> k \<and> k \<le> N \<longrightarrow>
      delays_before_attempt (?t @ [Call params]) (k + 1) = [10000 * (3 / 2) ^ (k - 1)]"
    using delays_before_retry_trace by blast
  moreover have "delays (?t @ [Call params]) = map (\<lambda>j. 10000 * (3 / 2) ^ j) [0..<N]"
    by (simp add: delays_retry_trace)
  ultimately show ?thesis by blast
qed

theorem generateWithRetry_succeeds_after_rate_limits_witness:
  "\<exists>t. generateWithRetry (fails_then 3 rate_limit_error (Resolves ok_response)) sample_request
           10 10000 [] = (Inr ok_response, t) \<and>
       attempts t = 4 \<and>
       delays_before_attempt t 1 = [] \<and>
       delays_before_attempt t 2 = [10000] \<and>
       delays_before_attempt t 3 = [15000] \<and>
       delays_before_attempt t 4 = [22500] \<and>
       delays t = [10000, 15000, 22500]"
proof -
  have "\<forall>k<3. \<exists>e. fails_then 3 rate_limit_error (Resolves ok_response) (attempts [] + k) sample_request
            = Rejects e \<and> isRateLimit e"
    by (simp add: fails_then_def rate_limit_error_def isRateLimit_def)
  moreover have "fails_then 3 rate_limit_error (Resolves ok_response) (attempts [] + 3) sample_request
            = Resolves ok_response"
    by (simp add: fails_then_def)
  moreover have "(3::nat) < 10" by simp
  ultimately obtain t where t:
    "generateWithRetry (fails_then 3 rate_limit_error (Resolves ok_response)) sample_request
           10 10000 ([] @ []) = (Inr ok_response, [] @ t)"
    "attempts t = 3 + 1" "delays_before_attempt t 1 = []"
    "\<forall>k. 1 \<le> k \<and> k \<le> 3 \<longrightarrow>
       delays_before_attempt t (k + 1) = [10000 * (3 / 2) ^ (k - 1)]"
    "delays t = map (\<lambda>j. 10000 * (3 / 2) ^ j) [0..<3]"
    using generateWithRetry_succeeds_after_rate_limits
      [of 3 "fails_then 3 rate_limit_error (Resolves ok_response)" "[]" sample_request ok_response]
    by auto
  have "delays_before_attempt t 2 = [10000]"
    using t(4) [rule_format, of 1] by (simp add: numeral_2_eq_2)
  moreover have "delays_before_attempt t 3 = [15000]"
    using t(4) [rule_format, of 2] by simp
  moreover have "delays_before_attempt t 4 = [22500]"
    using t(4) [rule_format, of 3] by (simp add: power2_eq_square)
  moreover have "delays t = [10000, 15000, 22500]"
    using t(5) by (simp add: upt_rec power2_eq_square)
  ultimately show ?thesis using t(1-3) by simp
qed

text \<open>
  The claim as stated puts the delay \<open>10000 * 1.5 ^ (k - 1)\<close> before attempt \<open>k\<close>.
  With one rejected attempt (\<open>N = 1\<close>) the delay before attempt 2 is 10000, not
  \<open>10000 * 1.5 ^ (2 - 1) = 15000\<close>.
\<close>

theorem delay_before_attempt_counterexample:
  "delays_before_attempt
     (snd (generateWithRetry (fails_then 1 rate_limit_error (Resolves ok_response))
             sample_request 10 10000 [])) 2 = [10000] \<and>
   delays_before_attempt
     (snd (generateWithRetry (fails_then 1 rate_limit_error (Resolves ok_response))
             sample_request 10 10000 [])) 2 \<noteq> [10000 * (3 / 2) ^ (2 - 1)]"
  by (simp add: generateWithRetry_def retry_loop.simps fails_then_def rate_limit_error_def
        isRateLimit_def)

subsection \<open>Exhausted attempts\<close>

text \<open>
  When every attempt is rejected with a rate-limit-classified error, the last iteration
  fails the test \<^verbatim>\<open>i < retries - 1\<close> and rethrows the error it caught: the
  \<^verbatim>\<open>throw new Error("Failed to generate content after retries. ...")\<close> after the loop
  is reached only when \<^verbatim>\<open>retries\<close> is 0.
\<close>

lemma quota_error_not_rate_limit: "\<not> isRateLimit quota_error"
  by (simp add: isRateLimit_def quota_error_def ustr_def)

lemma generateWithRetry_exhausted:
  assumes "0 < retries"
    and "\<forall>k<retries. \<exists>e. remote (attempts w + k) params = Rejects e \<and> isRateLimit e"
  shows "\<exists>e. generateWithRetry remote params retries initialDelay w =
               (Inl e, w @ retry_trace params retries 0 initialDelay (retries - 1) @ [Call params]) \<and>
             remote (attempts w + (retries - 1)) params = Rejects e \<and> e \<noteq> quota_error"
proof -
  let ?n = "retries - 1"
  let ?w = "w @ retry_trace params retries 0 initialDelay ?n"
  from assms obtain e where e: "remote (attempts w + ?n) params = Rejects e" "isRateLimit e"
    by (metis diff_less zero_less_one)
  have "retry_loop remote params retries 0 initialDelay w =
      retry_loop remote params retries (0 + ?n) (initialDelay * (3 / 2) ^ ?n) ?w"
    using assms by (intro retry_loop_retries) simp_all
  moreover have "retry_loop remote params retries (0 + ?n) (initialDelay * (3 / 2) ^ ?n) ?w =
      (Inl e, ?w @ [Call params])"
    using assms(1) e(1) by (intro retry_loop_rethrows) simp_all
  moreover have "e \<noteq> quota_error"
    using e(2) quota_error_not_rate_limit by blast
  ultimately show ?thesis using e(1)
    by (simp add: generateWithRetry_def)
qed

lemma generateWithRetry_quota_error_only_without_attempts:
  "generateWithRetry remote params 0 initialDelay w = (Inl quota_error, w)"
  by (simp add: generateWithRetry_def retry_loop.simps)

text \<open>
  Claim C1, evaluated where the code departs from it: an endpoint that rejects every
  call with status 429. After exactly 10 attempts the wrapper throws the endpoint's
  error, which is not the "quota exhausted" error.
\<close>

theorem generateWithRetry_exhaustion_rethrows:
  "fst (generateWithRetry (fails_then 10 rate_limit_error (Rejects rate_limit_error))
          sample_request 10 10000 []) = Inl rate_limit_error \<and>
   attempts (snd (generateWithRetry (fails_then 10 rate_limit_error (Rejects rate_limit_error))
          sample_request 10 10000 [])) = 10 \<and>
   rate_limit_error \<noteq> quota_error"
  by (simp add: generateWithRetry_def retry_loop.simps fails_then_def rate_limit_error_def
        isRateLimit_def quota_error_def)

section \<open>Properties of cleanCode and of the validation view\<close>

lemma rx_match_spaces: "rx_match [Many WhiteSpace] b s = Some (dropWhile is_space s)"
  by (induction s arbitrary: b) simp_all

lemma rx_match_spaces_end:
  "rx_match [Many WhiteSpace, End] b s = (if list_all is_space s then Some [] else None)"
  by (induction s arbitrary: b) simp_all

lemma rx_match_exact:
  "rx_match (map (\<lambda>c. One (Exactly c)) p @ rs) b s =
     (if startsWith s p then rx_match rs (b \<and> p = []) (drop (length p) s) else None)"
proof (induction p arbitrary: s b)
  case Nil
  then show ?case by simp
next
  case (Cons c p)
  then show ?case by (cases s) auto
qed

lemma rx_match_ignoring_case:
  "rx_match (map (\<lambda>c. One (IgnoreCase c)) p @ rs) b s =
     (if startsWith_ignoring_case s p then rx_match rs (b \<and> p = []) (drop (length p) s)
      else None)"
proof (induction p arbitrary: s b)
  case Nil
  then show ?case by simp
next
  case (Cons c p)
  then show ?case by (cases s) auto
qed

lemma rx_replace_not_at_start: "rx_replace_from (Start # rs) False s = s"
  by (induction s) simp_all

lemma replace_first_anchored:
  "replace_first (Start # rs) s = (case rx_match rs True s of Some rest \<Rightarrow> rest | None \<Rightarrow> s)"
  by (cases s) (simp_all add: replace_first_def rx_replace_not_at_start split: option.split)

lemma length_ustr [simp]: "length (ustr s) = length s"
  by (simp add: ustr_def)

lemma replace_python_fence: "replace_first python_fence_rx t = strip_python_fence t"
  by (simp add: python_fence_rx_def replace_first_anchored rx_match_ignoring_case
      rx_match_spaces strip_python_fence_def eval_nat_numeral)

lemma replace_leading_fence: "replace_first leading_fence_rx t = strip_leading_fence t"
  by (simp add: leading_fence_rx_def replace_first_anchored rx_match_exact
      rx_match_spaces strip_leading_fence_def eval_nat_numeral)

lemma trim_end_Cons:
  "trim_end (x # xs) =
     (if list_all is_space xs then (if is_space x then [] else [x]) else x # trim_end xs)"
proof (cases "list_all is_space xs")
  case True
  then have "dropWhile is_space (rev xs @ [x]) = dropWhile is_space [x]"
    by (intro dropWhile_append2) (simp add: list_all_iff)
  with True show ?thesis by (simp add: trim_end_def)
next
  case False
  then obtain y where "y \<in> set (rev xs)" "\<not> is_space y"
    by (auto simp: list_all_iff)
  then have "dropWhile is_space (rev xs @ [x]) = dropWhile is_space (rev xs) @ [x]"
    by (rule dropWhile_append1)
  with False show ?thesis by (simp add: trim_end_def)
qed

lemma trim_end_Nil [simp]: "trim_end [] = []"
  by (simp add: trim_end_def)

lemma trim_end_all_space: "list_all is_space xs \<Longrightarrow> trim_end xs = []"
  by (induction xs) (simp_all add: trim_end_Cons)

lemma rx_match_trailing:
  "rx_match trailing_fence_rx b s =
     (if startsWith s (ustr ''```'') \<and> list_all is_space (drop 3 s) then Some [] else None)"
  by (simp add: trailing_fence_rx_def rx_match_exact rx_match_spaces_end eval_nat_numeral)

lemma trim_end_decomp: "\<exists>ws. xs = trim_end xs @ ws \<and> list_all is_space ws"
proof -
  have "rev xs = takeWhile is_space (rev xs) @ dropWhile is_space (rev xs)"
    by simp
  then have "xs = rev (dropWhile is_space (rev xs)) @ rev (takeWhile is_space (rev xs))"
    by (metis rev_append rev_rev_ident)
  moreover have "list_all is_space (rev (takeWhile is_space (rev xs)))"
    by (simp add: list_all_iff) (meson set_takeWhileD)
  ultimately show ?thesis unfolding trim_end_def by blast
qed

lemma endsWith_Cons: "endsWith (x # B) F \<longleftrightarrow> x # B = F \<or> endsWith B F"
proof (cases "length F \<le> length B")
  case True
  then have "Suc (length B) - length F = Suc (length B - length F)" by simp
  with True show ?thesis by (auto simp: endsWith_def)
next
  case False
  then show ?thesis by (auto simp: endsWith_def)
qed

lemma not_space_backtick: "\<not> is_space 96"
  by (simp add: is_space_def)

lemma ustr_fence: "ustr ''```'' = [96, 96, 96]"
  by (simp add: ustr_def)

lemma trim_end_fence:
  assumes "startsWith s (ustr ''```'')" and "list_all is_space (drop 3 s)"
  shows "trim_end s = ustr ''```''"
proof -
  from assms(1) obtain ws where s: "s = 96 # 96 # 96 # ws"
    by (cases s; cases "tl s"; cases "tl (tl s)") (auto simp: ustr_fence)
  with assms(2) have "list_all is_space ws" by simp
  with s show ?thesis
    by (simp add: trim_end_Cons not_space_backtick ustr_fence)
qed

lemma strip_trailing_fence_Cons:
  assumes "\<not> (startsWith (x # xs) (ustr ''```'') \<and> list_all is_space (drop 3 (x # xs)))"
  shows "strip_trailing_fence (x # xs) = x # strip_trailing_fence xs"
proof (cases "list_all is_space xs")
  case True
  then have "trim_end xs = []" by (rule trim_end_all_space)
  with True show ?thesis
    by (simp add: strip_trailing_fence_def trim_end_Cons endsWith_def ustr_fence)
next
  case False
  then have te: "trim_end (x # xs) = x # trim_end xs"
    by (simp add: trim_end_Cons)
  have ne: "x # trim_end xs \<noteq> ustr ''```''"
  proof
    assume eq: "x # trim_end xs = ustr ''```''"
    obtain ws where ws: "xs = trim_end xs @ ws" "list_all is_space ws"
      using trim_end_decomp by blast
    from eq have "x = 96" "trim_end xs = [96, 96]" by (simp_all add: ustr_fence)
    with ws have "x # xs = 96 # 96 # 96 # ws" by simp
    with ws(2) assms show False by (simp add: ustr_fence)
  qed
  show ?thesis
  proof (cases "endsWith (trim_end xs) (ustr ''```'')")
    case True
    then have "3 \<le> length (trim_end xs)" by (simp add: endsWith_def)
    then have "Suc (length (trim_end xs)) - 3 = Suc (length (trim_end xs) - 3)" by simp
    with True te show ?thesis
      by (simp add: strip_trailing_fence_def endsWith_Cons)
  next
    case False
    with te ne show ?thesis
      by (simp add: strip_trailing_fence_def endsWith_Cons)
  qed
qed

lemma replace_trailing_fence_from:
  "rx_replace_from trailing_fence_rx b s = strip_trailing_fence s"
proof (induction s arbitrary: b)
  case Nil
  show ?case
    by (simp add: rx_match_trailing strip_trailing_fence_def endsWith_def ustr_fence)
next
  case (Cons x xs)
  show ?case
  proof (cases "startsWith (x # xs) (ustr ''```'') \<and> list_all is_space (drop 3 (x # xs))")
    case True
    then have "trim_end (x # xs) = ustr ''```''"
      using trim_end_fence by blast
    with True show ?thesis
      by (simp add: rx_match_trailing strip_trailing_fence_def endsWith_def del: startsWith.simps)
  next
    case False
    then have "rx_match trailing_fence_rx b (x # xs) = None"
      by (simp only: rx_match_trailing if_False)
    with Cons False show ?thesis
      by (simp add: strip_trailing_fence_Cons del: startsWith.simps)
  qed
qed

lemma replace_trailing_fence: "replace_first trailing_fence_rx t = strip_trailing_fence t"
  by (simp add: replace_first_def replace_trailing_fence_from)

lemma cleanCode_eq:
  "cleanCode t = trim (strip_trailing_fence (strip_leading_fence (strip_python_fence t)))"
  by (simp add: cleanCode_def replace_python_fence replace_leading_fence replace_trailing_fence)

lemma cleanJson_falls_back: "cleanJson (ustr ''[]'') = ustr ''[]''"
  by (simp add: cleanJson_def trim_def replace_first_def json_fence_rx_def leading_fence_rx_def
      trailing_fence_rx_def ustr_def is_space_def to_upper_ascii_def)

text \<open>
  Claim C9, amended. \<^verbatim>\<open>cleanCode\<close> applied to the text \<^verbatim>\<open>```python\nprint(1)\n```\<close>
  returns exactly \<^verbatim>\<open>print(1)\<close>. On every text it strips a leading \<^verbatim>\<open>```python\<close> fence
  (in any letter case, with the white space after it) if present, then a leading
  \<^verbatim>\<open>```\<close> fence (with the white space after it) if what is left starts with one, then
  a trailing \<^verbatim>\<open>```\<close> fence (with the white space after it), and trims the result.
\<close>

theorem cleanCode_strips_fences:
  "cleanCode (ustr ''```python\<newline>print(1)\<newline>```'') = ustr ''print(1)'' \<and>
   (\<forall>t. cleanCode t =
      trim (strip_trailing_fence (strip_leading_fence (strip_python_fence t))))"
proof -
  have "cleanCode (ustr ''```python\<newline>print(1)\<newline>```'') = ustr ''print(1)''"
    by (simp add: cleanCode_def trim_def replace_first_def python_fence_rx_def
        leading_fence_rx_def trailing_fence_rx_def ustr_def is_space_def to_upper_ascii_def)
  then show ?thesis by (simp add: cleanCode_eq)
qed

theorem cleanCode_strips_fences_witness:
  "cleanCode (ustr ''```\<newline>x = 1\<newline>``` '') = ustr ''x = 1''"
proof -
  have "trim (strip_trailing_fence (strip_leading_fence (strip_python_fence
          (ustr ''```\<newline>x = 1\<newline>``` '')))) = ustr ''x = 1''"
    by (simp add: trim_def strip_trailing_fence_def strip_leading_fence_def
        strip_python_fence_def trim_end_def endsWith_def ustr_def is_space_def to_upper_ascii_def)
  with cleanCode_strips_fences show ?thesis by simp
qed

text \<open>
  The claim as stated strips the generic leading fence only when no tagged fence is
  present. The code applies both replacements in turn: on \<^verbatim>\<open>```python```x\<close> it
  returns \<^verbatim>\<open>x\<close>, where the rule as stated leaves \<^verbatim>\<open>```x\<close>.
\<close>

theorem cleanCode_both_fences_counterexample:
  "cleanCode (ustr ''```python```x'') = ustr ''x'' \<and>
   cleanCode_as_claimed (ustr ''```python```x'') = ustr ''```x'' \<and>
   cleanCode (ustr ''```python```x'') \<noteq> cleanCode_as_claimed (ustr ''```python```x'')"
proof -
  have a: "cleanCode (ustr ''```python```x'') = ustr ''x''"
    by (simp add: cleanCode_def trim_def replace_first_def python_fence_rx_def
        leading_fence_rx_def trailing_fence_rx_def ustr_def is_space_def to_upper_ascii_def)
  have b: "cleanCode_as_claimed (ustr ''```python```x'') = ustr ''```x''"
    by (simp add: cleanCode_as_claimed_def trim_def strip_trailing_fence_def
        strip_python_fence_def trim_end_def endsWith_def ustr_def is_space_def to_upper_ascii_def)
  have "ustr ''x'' \<noteq> ustr ''```x''" by (simp add: ustr_def)
  with a b show ?thesis by simp
qed

lemma startsWith_iff: "startsWith s p \<longleftrightarrow> (\<exists>q. s = p @ q)"
  by (induction s p rule: startsWith.induct) auto

lemma js_includes_iff: "js_includes s sub \<longleftrightarrow> (\<exists>p q. s = p @ sub @ q)"
proof (induction s)
  case Nil
  then show ?case by auto
next
  case (Cons x xs)
  have "(\<exists>p q. x # xs = p @ sub @ q) \<longleftrightarrow> (\<exists>q. x # xs = sub @ q) \<or> (\<exists>p q. xs = p @ sub @ q)"
  proof
    assume "\<exists>p q. x # xs = p @ sub @ q"
    then obtain p q where pq: "x # xs = p @ sub @ q" by blast
    show "(\<exists>q. x # xs = sub @ q) \<or> (\<exists>p q. xs = p @ sub @ q)"
    proof (cases p)
      case Nil
      with pq show ?thesis by auto
    next
      case (Cons y p')
      with pq have "xs = p' @ sub @ q" by simp
      then show ?thesis by blast
    qed
  next
    assume "(\<exists>q. x # xs = sub @ q) \<or> (\<exists>p q. xs = p @ sub @ q)"
    then show "\<exists>p q. x # xs = p @ sub @ q"
    proof
      assume "\<exists>q. x # xs = sub @ q"
      then obtain q where "x # xs = [] @ sub @ q" by auto
      then show ?thesis by blast
    next
      assume "\<exists>p q. xs = p @ sub @ q"
      then obtain p q where "x # xs = (x # p) @ sub @ q" by auto
      then show ?thesis by blast
    qed
  qed
  with Cons show ?case by (simp add: startsWith_iff del: startsWith.simps)
qed

text \<open>
  Claim C4, amended. A validation report equal to
  \<^verbatim>\<open>Outputs are internally consistent and grounded.\<close> is shown as "Validation Passed";
  a report is shown as "Issues Detected" exactly when it does not contain the text
  \<^verbatim>\<open>consistent and grounded\<close>, and as "Validation Passed" whenever it does.
\<close>

theorem validation_heading_sentinel:
  "validation_heading (ustr ''Outputs are internally consistent and grounded.'') =
     ustr ''Validation Passed'' \<and>
   (\<forall>report. validation_heading report =
      (if \<exists>p q. report = p @ ustr ''consistent and grounded'' @ q
       then ustr ''Validation Passed'' else ustr ''Issues Detected''))"
proof -
  have "validation_heading (ustr ''Outputs are internally consistent and grounded.'') =
     ustr ''Validation Passed''"
    by (simp add: validation_heading_def ustr_def)
  then show ?thesis by (simp add: validation_heading_def js_includes_iff)
qed

theorem validation_heading_sentinel_witness:
  "validation_heading (ustr ''1. The summary overstates accuracy.'') = ustr ''Issues Detected''"
proof -
  have "\<not> js_includes (ustr ''1. The summary overstates accuracy.'') (ustr ''consistent and grounded'')"
    by (simp add: ustr_def)
  then have "\<not> (\<exists>p q. ustr ''1. The summary overstates accuracy.'' =
      p @ ustr ''consistent and grounded'' @ q)"
    using js_includes_iff by blast
  with validation_heading_sentinel show ?thesis by simp
qed

text \<open>
  The claim as stated treats every text other than the sentinel as "issues detected".
  A report that only contains the words is shown as passed.
\<close>

theorem validation_heading_other_text_counterexample:
  "ustr ''The summary is not consistent and grounded.'' \<noteq>
     ustr ''Outputs are internally consistent and grounded.'' \<and>
   validation_heading (ustr ''The summary is not consistent and grounded.'') =
     ustr ''Validation Passed'' \<and>
   validation_heading (ustr ''The summary is not consistent and grounded.'') \<noteq>
     ustr ''Issues Detected''"
  by (simp add: validation_heading_def ustr_def)

section \<open>Properties of generateAnalysis\<close>

subsection \<open>Runs of the pipeline\<close>

lemma parse_slides_eq:
  "parse_slides P r w = (Inr (slides_of P r), w @ parse_log P r)"
  by (simp add: parse_slides_def slides_of_def parse_log_def split: option.split)

lemmas run_simps =
  generateAnalysis_def Let_def await_def onProgress_def delay_def resolve_def parse_slides_eq
  summaryRequest_def critiqueRequest_def experimentRequest_def codeRequest_def
  slidesRequest_def interpretationRequest_def validationRequest_def
  stage_start_def step_labels_def
  summary_of_def critique_of_def plan_of_def code_of_def interpretation_of_def validation_of_def

lemma generateAnalysis_cases [consumes 1, case_names throws1 throws2 throws3 throws4 throws5 throws6 throws7 returns]:
  assumes run: "generateAnalysis P remote f m w0 = (res, w)"
  obtains
    (throws1) e where
      "generateWithRetry remote (summaryRequest (InlineData m f)) 10 10000 (w0 @ stage_start 1) = (Inl e, w)"
      "res = Inl e"
  |
    (throws2) e r1 w1 where
      "generateWithRetry remote (summaryRequest (InlineData m f)) 10 10000 (w0 @ stage_start 1) = (Inr r1, w1)"
      "generateWithRetry remote (critiqueRequest (InlineData m f)) 10 10000 (w1 @ stage_start 2) = (Inl e, w)"
      "res = Inl e"
  |
    (throws3) e r1 w1 r2 w2 where
      "generateWithRetry remote (summaryRequest (InlineData m f)) 10 10000 (w0 @ stage_start 1) = (Inr r1, w1)"
      "generateWithRetry remote (critiqueRequest (InlineData m f)) 10 10000 (w1 @ stage_start 2) = (Inr r2, w2)"
      "generateWithRetry remote (experimentRequest (InlineData m f)) 10 10000 (w2 @ stage_start 3) = (Inl e, w)"
      "res = Inl e"
  |
    (throws4) e r1 w1 r2 w2 r3 w3 where
      "generateWithRetry remote (summaryRequest (InlineData m f)) 10 10000 (w0 @ stage_start 1) = (Inr r1, w1)"
      "generateWithRetry remote (critiqueRequest (InlineData m f)) 10 10000 (w1 @ stage_start 2) = (Inr r2, w2)"
      "generateWithRetry remote (experimentRequest (InlineData m f)) 10 10000 (w2 @ stage_start 3) = (Inr r3, w3)"
      "generateWithRetry remote (codeRequest (plan_of r3)) 10 10000 (w3 @ stage_start 4) = (Inl e, w)"
      "res = Inl e"
  |
    (throws5) e r1 w1 r2 w2 r3 w3 r4 w4 where
      "generateWithRetry remote (summaryRequest (InlineData m f)) 10 10000 (w0 @ stage_start 1) = (Inr r1, w1)"
      "generateWithRetry remote (critiqueRequest (InlineData m f)) 10 10000 (w1 @ stage_start 2) = (Inr r2, w2)"
      "generateWithRetry remote (experimentRequest (InlineData m f)) 10 10000 (w2 @ stage_start 3) = (Inr r3, w3)"
      "generateWithRetry remote (codeRequest (plan_of r3)) 10 10000 (w3 @ stage_start 4) = (Inr r4, w4)"
      "generateWithRetry remote (slidesRequest (InlineData m f) (summary_of r1) (plan_of r3)) 10 10000 (w4 @ stage_start 5) = (Inl e, w)"
      "res = Inl e"
  |
    (throws6) e r1 w1 r2 w2 r3 w3 r4 w4 r5 w5 where
      "generateWithRetry remote (summaryRequest (InlineData m f)) 10 10000 (w0 @ stage_start 1) = (Inr r1, w1)"
      "generateWithRetry remote (critiqueRequest (InlineData m f)) 10 10000 (w1 @ stage_start 2) = (Inr r2, w2)"
      "generateWithRetry remote (experimentRequest (InlineData m f)) 10 10000 (w2 @ stage_start 3) = (Inr r3, w3)"
      "generateWithRetry remote (codeRequest (plan_of r3)) 10 10000 (w3 @ stage_start 4) = (Inr r4, w4)"
      "generateWithRetry remote (slidesRequest (InlineData m f) (summary_of r1) (plan_of r3)) 10 10000 (w4 @ stage_start 5) = (Inr r5, w5)"
      "generateWithRetry remote (interpretationRequest (plan_of r3)) 10 10000 (w5 @ parse_log P r5 @ stage_start 6) = (Inl e, w)"
      "res = Inl e"
  |
    (throws7) e r1 w1 r2 w2 r3 w3 r4 w4 r5 w5 r6 w6 where
      "generateWithRetry remote (summaryRequest (InlineData m f)) 10 10000 (w0 @ stage_start 1) = (Inr r1, w1)"
      "generateWithRetry remote (critiqueRequest (InlineData m f)) 10 10000 (w1 @ stage_start 2) = (Inr r2, w2)"
      "generateWithRetry remote (experimentRequest (InlineData m f)) 10 10000 (w2 @ stage_start 3) = (Inr r3, w3)"
      "generateWithRetry remote (codeRequest (plan_of r3)) 10 10000 (w3 @ stage_start 4) = (Inr r4, w4)"
      "generateWithRetry remote (slidesRequest (InlineData m f) (summary_of r1) (plan_of r3)) 10 10000 (w4 @ stage_start 5) = (Inr r5, w5)"
      "generateWithRetry remote (interpretationRequest (plan_of r3)) 10 10000 (w5 @ parse_log P r5 @ stage_start 6) = (Inr r6, w6)"
      "generateWithRetry remote (validationRequest (InlineData m f) (summary_of r1) (critique_of r2) (plan_of r3)) 10 10000 (w6 @ stage_start 7) = (Inl e, w)"
      "res = Inl e"
  |
    (returns) r1 w1 r2 w2 r3 w3 r4 w4 r5 w5 r6 w6 r7 w7 where
      "generateWithRetry remote (summaryRequest (InlineData m f)) 10 10000 (w0 @ stage_start 1) = (Inr r1, w1)"
      "generateWithRetry remote (critiqueRequest (InlineData m f)) 10 10000 (w1 @ stage_start 2) = (Inr r2, w2)"
      "generateWithRetry remote (experimentRequest (InlineData m f)) 10 10000 (w2 @ stage_start 3) = (Inr r3, w3)"
      "generateWithRetry remote (codeRequest (plan_of r3)) 10 10000 (w3 @ stage_start 4) = (Inr r4, w4)"
      "generateWithRetry remote (slidesRequest (InlineData m f) (summary_of r1) (plan_of r3)) 10 10000 (w4 @ stage_start 5) = (Inr r5, w5)"
      "generateWithRetry remote (interpretationRequest (plan_of r3)) 10 10000 (w5 @ parse_log P r5 @ stage_start 6) = (Inr r6, w6)"
      "generateWithRetry remote (validationRequest (InlineData m f) (summary_of r1) (critique_of r2) (plan_of r3)) 10 10000 (w6 @ stage_start 7) = (Inr r7, w7)"
      "res = Inr
         \<lparr>summary = summary_of r1, critique = critique_of r2, experimentPlan = plan_of r3,
          pythonCode = code_of r4, experimentInterpretation = interpretation_of r6,
          validationReport = validation_of r7, slides = slides_of P r5\<rparr>"
      "w = w7"
proof -
  obtain x1 w1 where g1:
    "generateWithRetry remote (summaryRequest (InlineData m f)) 10 10000 (w0 @ stage_start 1) = (x1, w1)"
    by (meson surj_pair)
  show thesis
  proof (cases x1)
    case (Inl e)
    have "generateAnalysis P remote f m w0 = (Inl e, w1)"
      using  g1 Inl by (simp add: run_simps)
    with run have "res = Inl e" "w1 = w" by simp_all
    with  g1 Inl show thesis by (intro throws1) simp_all
  next
    case (Inr r1)
    with g1 have s1:
      "generateWithRetry remote (summaryRequest (InlineData m f)) 10 10000 (w0 @ stage_start 1) = (Inr r1, w1)"
      by simp
    obtain x2 w2 where g2:
      "generateWithRetry remote (critiqueRequest (InlineData m f)) 10 10000 (w1 @ stage_start 2) = (x2, w2)"
      by (meson surj_pair)
    show thesis
    proof (cases x2)
      case (Inl e)
      have "generateAnalysis P remote f m w0 = (Inl e, w2)"
        using s1 g2 Inl by (simp add: run_simps)
      with run have "res = Inl e" "w2 = w" by simp_all
      with s1 g2 Inl show thesis by (intro throws2) simp_all
    next
      case (Inr r2)
      with g2 have s2:
        "generateWithRetry remote (critiqueRequest (InlineData m f)) 10 10000 (w1 @ stage_start 2) = (Inr r2, w2)"
        by simp
      obtain x3 w3 where g3:
        "generateWithRetry remote (experimentRequest (InlineData m f)) 10 10000 (w2 @ stage_start 3) = (x3, w3)"
        by (meson surj_pair)
      show thesis
      proof (cases x3)
        case (Inl e)
        have "generateAnalysis P remote f m w0 = (Inl e, w3)"
          using s1 s2 g3 Inl by (simp add: run_simps)
        with run have "res = Inl e" "w3 = w" by simp_all
        with s1 s2 g3 Inl show thesis by (intro throws3) simp_all
      next
        case (Inr r3)
        with g3 have s3:
          "generateWithRetry remote (experimentRequest (InlineData m f)) 10 10000 (w2 @ stage_start 3) = (Inr r3, w3)"
          by simp
        obtain x4 w4 where g4:
          "generateWithRetry remote (codeRequest (plan_of r3)) 10 10000 (w3 @ stage_start 4) = (x4, w4)"
          by (meson surj_pair)
        show thesis
        proof (cases x4)
          case (Inl e)
          have "generateAnalysis P remote f m w0 = (Inl e, w4)"
            using s1 s2 s3 g4 Inl by (simp add: run_simps)
          with run have "res = Inl e" "w4 = w" by simp_all
          with s1 s2 s3 g4 Inl show thesis by (intro throws4) simp_all
        next
          case (Inr r4)
          with g4 have s4:
            "generateWithRetry remote (codeRequest (plan_of r3)) 10 10000 (w3 @ stage_start 4) = (Inr r4, w4)"
            by simp
          obtain x5 w5 where g5:
            "generateWithRetry remote (slidesRequest (InlineData m f) (summary_of r1) (plan_of r3)) 10 10000 (w4 @ stage_start 5) = (x5, w5)"
            by (meson surj_pair)
          show thesis
          proof (cases x5)
            case (Inl e)
            have "generateAnalysis P remote f m w0 = (Inl e, w5)"
              using s1 s2 s3 s4 g5 Inl by (simp add: run_simps)
            with run have "res = Inl e" "w5 = w" by simp_all
            with s1 s2 s3 s4 g5 Inl show thesis by (intro throws5) simp_all
          next
            case (Inr r5)
            with g5 have s5:
              "generateWithRetry remote (slidesRequest (InlineData m f) (summary_of r1) (plan_of r3)) 10 10000 (w4 @ stage_start 5) = (Inr r5, w5)"
              by simp
            obtain x6 w6 where g6:
              "generateWithRetry remote (interpretationRequest (plan_of r3)) 10 10000 (w5 @ parse_log P r5 @ stage_start 6) = (x6, w6)"
              by (meson surj_pair)
            show thesis
            proof (cases x6)
              case (Inl e)
              have "generateAnalysis P remote f m w0 = (Inl e, w6)"
                using s1 s2 s3 s4 s5 g6 Inl by (simp add: run_simps)
              with run have "res = Inl e" "w6 = w" by simp_all
              with s1 s2 s3 s4 s5 g6 Inl show thesis by (intro throws6) simp_all
            next
              case (Inr r6)
              with g6 have s6:
                "generateWithRetry remote (interpretationRequest (plan_of r3)) 10 10000 (w5 @ parse_log P r5 @ stage_start 6) = (Inr r6, w6)"
                by simp
              obtain x7 w7 where g7:
                "generateWithRetry remote (validationRequest (InlineData m f) (summary_of r1) (critique_of r2) (plan_of r3)) 10 10000 (w6 @ stage_start 7) = (x7, w7)"
                by (meson surj_pair)
              show thesis
              proof (cases x7)
                case (Inl e)
                have "generateAnalysis P remote f m w0 = (Inl e, w7)"
                  using s1 s2 s3 s4 s5 s6 g7 Inl by (simp add: run_simps)
                with run have "res = Inl e" "w7 = w" by simp_all
                with s1 s2 s3 s4 s5 s6 g7 Inl show thesis by (intro throws7) simp_all
              next
                case (Inr r7)
                with g7 have s7:
                  "generateWithRetry remote (validationRequest (InlineData m f) (summary_of r1) (critique_of r2) (plan_of r3)) 10 10000 (w6 @ stage_start 7) = (Inr r7, w7)"
                  by simp
              have "generateAnalysis P remote f m w0 =
                  (Inr \<lparr>summary = summary_of r1, critique = critique_of r2, experimentPlan = plan_of r3,
                        pythonCode = code_of r4, experimentInterpretation = interpretation_of r6,
                        validationReport = validation_of r7, slides = slides_of P r5\<rparr>, w7)"
                using s1 s2 s3 s4 s5 s6 s7 by (simp add: run_simps)
              with run have res: "res = Inr
                  \<lparr>summary = summary_of r1, critique = critique_of r2, experimentPlan = plan_of r3,
                        pythonCode = code_of r4, experimentInterpretation = interpretation_of r6,
                        validationReport = validation_of r7, slides = slides_of P r5\<rparr>"
                and w: "w = w7" by simp_all
              show thesis by (rule returns [OF s1 s2 s3 s4 s5 s6 s7 res w])
              qed
            qed
          qed
        qed
      qed
    qed
  qed
qed

lemma calls_append [simp]: "calls (w @ v) = calls w @ calls v"
  by (induction w rule: calls.induct) simp_all

lemma calls_stage_start [simp]: "calls (stage_start k) = []"
  by (simp add: stage_start_def)

lemma calls_parse_log [simp]: "calls (parse_log P r) = []"
  by (simp add: parse_log_def split: option.split)

lemma retry_loop_calls:
  "retry_loop remote q retries i d w = (res, w') \<Longrightarrow>
   \<exists>n. calls w' = calls w @ replicate n q \<and> (i < retries \<longrightarrow> 1 \<le> n)"
proof (induction remote q retries i d w rule: retry_loop.induct)
  case (1 remote params retries i currentDelay w)
  show ?case
  proof (cases "i < retries")
    case False
    with "1.prems" have "w' = w" by (simp add: retry_loop.simps)
    with False show ?thesis by simp
  next
    case True
    show ?thesis
    proof (cases "remote (attempts w) params")
      case (Resolves r)
      with True "1.prems" have "w' = w @ [Call params]" by (simp add: retry_loop.simps)
      then have "calls w' = calls w @ replicate 1 params" by simp
      then show ?thesis by blast
    next
      case (Rejects e)
      show ?thesis
      proof (cases "isRateLimit e \<and> i < retries - 1")
        case False
        with True Rejects "1.prems" have "w' = w @ [Call params]"
          by (auto simp: retry_loop.simps)
        then have "calls w' = calls w @ replicate 1 params" by simp
        then show ?thesis by blast
      next
        case again: True
        with True Rejects "1.prems"
        have "retry_loop remote params retries (i + 1) (currentDelay * (3 / 2))
                (w @ [Call params, ConsoleWarn (i + 1) retries currentDelay, Sleep currentDelay])
              = (res, w')"
          by (subst (asm) retry_loop.simps) simp
        from "1.IH" [OF True Rejects again this] obtain n where
          "calls w' = calls (w @ [Call params, ConsoleWarn (i + 1) retries currentDelay,
             Sleep currentDelay]) @ replicate n params"
          by blast
        then have "calls w' = calls w @ replicate (Suc n) params"
          by simp
        then show ?thesis by (metis Suc_eq_plus1 le_add2)
      qed
    qed
  qed
qed

lemma generateWithRetry_calls:
  assumes "generateWithRetry remote q 10 10000 w = (res, w')"
  shows "\<exists>n. 1 \<le> n \<and> calls w' = calls w @ replicate n q"
  using retry_loop_calls [of remote q 10 0 10000 w res w'] assms
  by (auto simp: generateWithRetry_def)

lemma generateAnalysis_calls:
  assumes run: "generateAnalysis P remote f m w0 = (res, w)"
  shows "\<exists>ns summ crit plan.
           ns \<noteq> [] \<and> length ns \<le> 7 \<and> (\<forall>n\<in>set ns. 1 \<le> n) \<and>
           calls w = calls w0 @
             concat (map2 replicate ns (stage_requests (InlineData m f) summ crit plan)) \<and>
           (\<forall>b. res = Inr b \<longrightarrow>
              length ns = 7 \<and> summ = summary b \<and> crit = critique b \<and> plan = experimentPlan b)"
  using run
proof (cases rule: generateAnalysis_cases)
  case (throws1 e)
  from generateWithRetry_calls [OF throws1(1)] obtain n1 where n1:
    "1 \<le> n1" "calls w = calls w0 @ replicate n1 (summaryRequest (InlineData m f))"
    by (auto simp: calls_stage_start calls_parse_log)
  show ?thesis
    apply (rule exI [of _ "[n1]"])
    apply (rule exI [of _ "[]"])
    apply (rule exI [of _ "[]"])
    apply (rule exI [of _ "[]"])
    using n1 throws1(2)
    by (simp add: stage_requests_def)
next
  case (throws2 e r1 w1)
  from generateWithRetry_calls [OF throws2(1)] obtain n1 where n1:
    "1 \<le> n1" "calls w1 = calls w0 @ replicate n1 (summaryRequest (InlineData m f))"
    by (auto simp: calls_stage_start calls_parse_log)
  from generateWithRetry_calls [OF throws2(2)] obtain n2 where n2:
    "1 \<le> n2" "calls w = calls w1 @ replicate n2 (critiqueRequest (InlineData m f))"
    by (auto simp: calls_stage_start calls_parse_log)
  show ?thesis
    apply (rule exI [of _ "[n1, n2]"])
    apply (rule exI [of _ "summary_of r1"])
    apply (rule exI [of _ "[]"])
    apply (rule exI [of _ "[]"])
    using n1 n2 throws2(3)
    by (simp add: stage_requests_def)
next
  case (throws3 e r1 w1 r2 w2)
  from generateWithRetry_calls [OF throws3(1)] obtain n1 where n1:
    "1 \<le> n1" "calls w1 = calls w0 @ replicate n1 (summaryRequest (InlineData m f))"
    by (auto simp: calls_stage_start calls_parse_log)
  from generateWithRetry_calls [OF throws3(2)] obtain n2 where n2:
    "1 \<le> n2" "calls w2 = calls w1 @ replicate n2 (critiqueRequest (InlineData m f))"
    by (auto simp: calls_stage_start calls_parse_log)
  from generateWithRetry_calls [OF throws3(3)] obtain n3 where n3:
    "1 \<le> n3" "calls w = calls w2 @ replicate n3 (experimentRequest (InlineData m f))"
    by (auto simp: calls_stage_start calls_parse_log)
  show ?thesis
    apply (rule exI [of _ "[n1, n2, n3]"])
    apply (rule exI [of _ "summary_of r1"])
    apply (rule exI [of _ "critique_of r2"])
    apply (rule exI [of _ "[]"])
    using n1 n2 n3 throws3(4)
    by (simp add: stage_requests_def)
next
  case (throws4 e r1 w1 r2 w2 r3 w3)
  from generateWithRetry_calls [OF throws4(1)] obtain n1 where n1:
    "1 \<le> n1" "calls w1 = calls w0 @ replicate n1 (summaryRequest (InlineData m f))"
    by (auto simp: calls_stage_start calls_parse_log)
  from generateWithRetry_calls [OF throws4(2)] obtain n2 where n2:
    "1 \<le> n2" "calls w2 = calls w1 @ replicate n2 (critiqueRequest (InlineData m f))"
    by (auto simp: calls_stage_start calls_parse_log)
  from generateWithRetry_calls [OF throws4(3)] obtain n3 where n3:
    "1 \<le> n3" "calls w3 = calls w2 @ replicate n3 (experimentRequest (InlineData m f))"
    by (auto simp: calls_stage_start calls_parse_log)
  from generateWithRetry_calls [OF throws4(4)] obtain n4 where n4:
    "1 \<le> n4" "calls w = calls w3 @ replicate n4 (codeRequest (plan_of r3))"
    by (auto simp: calls_stage_start calls_parse_log)
  show ?thesis
    apply (rule exI [of _ "[n1, n2, n3, n4]"])
    apply (rule exI [of _ "summary_of r1"])
    apply (rule exI [of _ "critique_of r2"])
    apply (rule exI [of _ "plan_of r3"])
    using n1 n2 n3 n4 throws4(5)
    by (simp add: stage_requests_def)
next
  case (throws5 e r1 w1 r2 w2 r3 w3 r4 w4)
  from generateWithRetry_calls [OF throws5(1)] obtain n1 where n1:
    "1 \<le> n1" "calls w1 = calls w0 @ replicate n1 (summaryRequest (InlineData m f))"
    by (auto simp: calls_stage_start calls_parse_log)
  from generateWithRetry_calls [OF throws5(2)] obtain n2 where n2:
    "1 \<le> n2" "calls w2 = calls w1 @ replicate n2 (critiqueRequest (InlineData m f))"
    by (auto simp: calls_stage_start calls_parse_log)
  from generateWithRetry_calls [OF throws5(3)] obtain n3 where n3:
    "1 \<le> n3" "calls w3 = calls w2 @ replicate n3 (experimentRequest (InlineData m f))"
    by (auto simp: calls_stage_start calls_parse_log)
  from generateWithRetry_calls [OF throws5(4)] obtain n4 where n4:
    "1 \<le> n4" "calls w4 = calls w3 @ replicate n4 (codeRequest (plan_of r3))"
    by (auto simp: calls_stage_start calls_parse_log)
  from generateWithRetry_calls [OF throws5(5)] obtain n5 where n5:
    "1 \<le> n5" "calls w = calls w4 @ replicate n5 (slidesRequest (InlineData m f) (summary_of r1) (plan_of r3))"
    by (auto simp: calls_stage_start calls_parse_log)
  show ?thesis
    apply (rule exI [of _ "[n1, n2, n3, n4, n5]"])
    apply (rule exI [of _ "summary_of r1"])
    apply (rule exI [of _ "critique_of r2"])
    apply (rule exI [of _ "plan_of r3"])
    using n1 n2 n3 n4 n5 throws5(6)
    by (simp add: stage_requests_def)
next
  case (throws6 e r1 w1 r2 w2 r3 w3 r4 w4 r5 w5)
  from generateWithRetry_calls [OF throws6(1)] obtain n1 where n1:
    "1 \<le> n1" "calls w1 = calls w0 @ replicate n1 (summaryRequest (InlineData m f))"
    by (auto simp: calls_stage_start calls_parse_log)
  from generateWithRetry_calls [OF throws6(2)] obtain n2 where n2:
    "1 \<le> n2" "calls w2 = calls w1 @ replicate n2 (critiqueRequest (InlineData m f))"
    by (auto simp: calls_stage_start calls_parse_log)
  from generateWithRetry_calls [OF throws6(3)] obtain n3 where n3:
    "1 \<le> n3" "calls w3 = calls w2 @ replicate n3 (experimentRequest (InlineData m f))"
    by (auto simp: calls_stage_start calls_parse_log)
  from generateWithRetry_calls [OF throws6(4)] obtain n4 where n4:
    "1 \<le> n4" "calls w4 = calls w3 @ replicate n4 (codeRequest (plan_of r3))"
    by (auto simp: calls_stage_start calls_parse_log)
  from generateWithRetry_calls [OF throws6(5)] obtain n5 where n5:
    "1 \<le> n5" "calls w5 = calls w4 @ replicate n5 (slidesRequest (InlineData m f) (summary_of r1) (plan_of r3))"
    by (auto simp: calls_stage_start calls_parse_log)
  from generateWithRetry_calls [OF throws6(6)] obtain n6 where n6:
    "1 \<le> n6" "calls w = calls w5 @ replicate n6 (interpretationRequest (plan_of r3))"
    by (auto simp: calls_stage_start calls_parse_log)
  show ?thesis
    apply (rule exI [of _ "[n1, n2, n3, n4, n5, n6]"])
    apply (rule exI [of _ "summary_of r1"])
    apply (rule exI [of _ "critique_of r2"])
    apply (rule exI [of _ "plan_of r3"])
    using n1 n2 n3 n4 n5 n6 throws6(7)
    by (simp add: stage_requests_def)
next
  case (throws7 e r1 w1 r2 w2 r3 w3 r4 w4 r5 w5 r6 w6)
  from generateWithRetry_calls [OF throws7(1)] obtain n1 where n1:
    "1 \<le> n1" "calls w1 = calls w0 @ replicate n1 (summaryRequest (InlineData m f))"
    by (auto simp: calls_stage_start calls_parse_log)
  from generateWithRetry_calls [OF throws7(2)] obtain n2 where n2:
    "1 \<le> n2" "calls w2 = calls w1 @ replicate n2 (critiqueRequest (InlineData m f))"
    by (auto simp: calls_stage_start calls_parse_log)
  from generateWithRetry_calls [OF throws7(3)] obtain n3 where n3:
    "1 \<le> n3" "calls w3 = calls w2 @ replicate n3 (experimentRequest (InlineData m f))"
    by (auto simp: calls_stage_start calls_parse_log)
  from generateWithRetry_calls [OF throws7(4)] obtain n4 where n4:
    "1 \<le> n4" "calls w4 = calls w3 @ replicate n4 (codeRequest (plan_of r3))"
    by (auto simp: calls_stage_start calls_parse_log)
  from generateWithRetry_calls [OF throws7(5)] obtain n5 where n5:
    "1 \<le> n5" "calls w5 = calls w4 @ replicate n5 (slidesRequest (InlineData m f) (summary_of r1) (plan_of r3))"
    by (auto simp: calls_stage_start calls_parse_log)
  from generateWithRetry_calls [OF throws7(6)] obtain n6 where n6:
    "1 \<le> n6" "calls w6 = calls w5 @ replicate n6 (interpretationRequest (plan_of r3))"
    by (auto simp: calls_stage_start calls_parse_log)
  from generateWithRetry_calls [OF throws7(7)] obtain n7 where n7:
    "1 \<le> n7" "calls w = calls w6 @ replicate n7 (validationRequest (InlineData m f) (summary_of r1) (critique_of r2) (plan_of r3))"
    by (auto simp: calls_stage_start calls_parse_log)
  show ?thesis
    apply (rule exI [of _ "[n1, n2, n3, n4, n5, n6, n7]"])
    apply (rule exI [of _ "summary_of r1"])
    apply (rule exI [of _ "critique_of r2"])
    apply (rule exI [of _ "plan_of r3"])
    using n1 n2 n3 n4 n5 n6 n7 throws7(8)
    by (simp add: stage_requests_def)
next
  case (returns r1 w1 r2 w2 r3 w3 r4 w4 r5 w5 r6 w6 r7 w7)
  from generateWithRetry_calls [OF returns(1)] obtain n1 where n1:
    "1 \<le> n1" "calls w1 = calls w0 @ replicate n1 (summaryRequest (InlineData m f))"
    by (auto simp: calls_stage_start calls_parse_log)
  from generateWithRetry_calls [OF returns(2)] obtain n2 where n2:
    "1 \<le> n2" "calls w2 = calls w1 @ replicate n2 (critiqueRequest (InlineData m f))"
    by (auto simp: calls_stage_start calls_parse_log)
  from generateWithRetry_calls [OF returns(3)] obtain n3 where n3:
    "1 \<le> n3" "calls w3 = calls w2 @ replicate n3 (experimentRequest (InlineData m f))"
    by (auto simp: calls_stage_start calls_parse_log)
  from generateWithRetry_calls [OF returns(4)] obtain n4 where n4:
    "1 \<le> n4" "calls w4 = calls w3 @ replicate n4 (codeRequest (plan_of r3))"
    by (auto simp: calls_stage_start calls_parse_log)
  from generateWithRetry_calls [OF returns(5)] obtain n5 where n5:
    "1 \<le> n5" "calls w5 = calls w4 @ replicate n5 (slidesRequest (InlineData m f) (summary_of r1) (plan_of r3))"
    by (auto simp: calls_stage_start calls_parse_log)
  from generateWithRetry_calls [OF returns(6)] obtain n6 where n6:
    "1 \<le> n6" "calls w6 = calls w5 @ replicate n6 (interpretationRequest (plan_of r3))"
    by (auto simp: calls_stage_start calls_parse_log)
  from generateWithRetry_calls [OF returns(7)] obtain n7 where n7:
    "1 \<le> n7" "calls w7 = calls w6 @ replicate n7 (validationRequest (InlineData m f) (summary_of r1) (critique_of r2) (plan_of r3))"
    by (auto simp: calls_stage_start calls_parse_log)
  show ?thesis
    apply (rule exI [of _ "[n1, n2, n3, n4, n5, n6, n7]"])
    apply (rule exI [of _ "summary_of r1"])
    apply (rule exI [of _ "critique_of r2"])
    apply (rule exI [of _ "plan_of r3"])
    using n1 n2 n3 n4 n5 n6 n7 returns(8) returns(9)
    by (simp add: stage_requests_def)
qed

lemma attempts_stage_start [simp]: "attempts (stage_start k) = 0"
  by (simp add: stage_start_def)

lemma attempts_parse_log [simp]: "attempts (parse_log P r) = 0"
  by (simp add: parse_log_def split: option.split)

text \<open>
  The response that a stage works with is the one with which the endpoint resolved the
  last attempt of the stage, and the error that aborts a run is the one with which the
  endpoint rejected the last attempt of the stage that was running.
\<close>

lemma retry_loop_last_attempt:
  "retry_loop remote q retries i d w = (res, w') \<Longrightarrow> i < retries \<Longrightarrow>
   \<exists>n. 1 \<le> n \<and> calls w' = calls w @ replicate n q \<and> attempts w' = attempts w + n \<and>
       remote (attempts w + n - 1) q = (case res of Inl e \<Rightarrow> Rejects e | Inr r \<Rightarrow> Resolves r)"
proof (induction remote q retries i d w rule: retry_loop.induct)
  case (1 remote params retries i currentDelay w)
  note lt = \<open>i < retries\<close>
  show ?case
  proof (cases "remote (attempts w) params")
    case (Resolves r)
    with lt "1.prems"(1) have "w' = w @ [Call params]" "res = Inr r"
      by (simp_all add: retry_loop.simps)
    with Resolves show ?thesis
      by (intro exI [of _ 1]) simp
  next
    case (Rejects e)
    show ?thesis
    proof (cases "isRateLimit e \<and> i < retries - 1")
      case False
      with lt Rejects "1.prems"(1) have "w' = w @ [Call params]" "res = Inl e"
        by (auto simp: retry_loop.simps)
      with Rejects show ?thesis
        by (intro exI [of _ 1]) simp
    next
      case again: True
      let ?w = "w @ [Call params, ConsoleWarn (i + 1) retries currentDelay, Sleep currentDelay]"
      from lt Rejects again "1.prems"(1)
      have "retry_loop remote params retries (i + 1) (currentDelay * (3 / 2)) ?w = (res, w')"
        by (subst (asm) retry_loop.simps) simp
      moreover from again have "i + 1 < retries" by arith
      ultimately obtain n where n: "1 \<le> n" "calls w' = calls ?w @ replicate n params"
        "attempts w' = attempts ?w + n"
        "remote (attempts ?w + n - 1) params =
           (case res of Inl e \<Rightarrow> Rejects e | Inr r \<Rightarrow> Resolves r)"
        using "1.IH" [OF lt Rejects again] by blast
      show ?thesis
        using n by (intro exI [of _ "Suc n"]) simp
    qed
  qed
qed

lemma generateWithRetry_last_attempt:
  assumes "generateWithRetry remote q 10 10000 (v @ pre) = (res, w')"
    and "calls pre = []" and "attempts pre = 0"
  shows "\<exists>n. 1 \<le> n \<and> calls w' = calls v @ replicate n q \<and> attempts w' = attempts v + n \<and>
       remote (attempts v + n - 1) q = (case res of Inl e \<Rightarrow> Rejects e | Inr r \<Rightarrow> Resolves r)"
  using retry_loop_last_attempt [of remote q 10 0 10000 "v @ pre" res w'] assms
  by (simp add: generateWithRetry_def)

lemma generateAnalysis_stage_responses:
  assumes run: "generateAnalysis P remote f m w0 = (res, w)"
  shows "\<exists>ns rs.
           ns \<noteq> [] \<and> length ns \<le> 7 \<and> (\<forall>n\<in>set ns. 1 \<le> n) \<and> length rs = 7 \<and>
           calls w = calls w0 @
             concat (map2 replicate ns
               (stage_requests (InlineData m f)
                  (summary_of (rs ! 0)) (critique_of (rs ! 1)) (plan_of (rs ! 2)))) \<and>
           (\<forall>j. Suc j < length ns \<longrightarrow>
              remote (attempts w0 + sum_list (take (Suc j) ns) - 1)
                (stage_requests (InlineData m f)
                   (summary_of (rs ! 0)) (critique_of (rs ! 1)) (plan_of (rs ! 2)) ! j) =
                Resolves (rs ! j)) \<and>
           (\<forall>e. res = Inl e \<longrightarrow>
              remote (attempts w0 + sum_list ns - 1)
                (stage_requests (InlineData m f)
                   (summary_of (rs ! 0)) (critique_of (rs ! 1)) (plan_of (rs ! 2)) !
                 (length ns - 1)) = Rejects e) \<and>
           (\<forall>b. res = Inr b \<longrightarrow>
              length ns = 7 \<and>
              remote (attempts w0 + sum_list ns - 1)
                (stage_requests (InlineData m f)
                   (summary_of (rs ! 0)) (critique_of (rs ! 1)) (plan_of (rs ! 2)) ! 6) =
                Resolves (rs ! 6) \<and>
              summary b = summary_of (rs ! 0) \<and> critique b = critique_of (rs ! 1) \<and>
              experimentPlan b = plan_of (rs ! 2))"
  using run
proof (cases rule: generateAnalysis_cases)
  case (throws1 e)
  from generateWithRetry_last_attempt [OF throws1(1)] obtain n1 where n1:
    "1 \<le> n1" "calls w = calls w0 @ replicate n1 (summaryRequest (InlineData m f))"
    "attempts w = attempts w0 + n1"
    "remote (attempts w0 + n1 - 1) (summaryRequest (InlineData m f)) = Rejects e"
    by (auto simp: calls_stage_start calls_parse_log)
  show ?thesis
    apply (rule exI [of _ "[n1]"])
    apply (rule exI [of _ "[\<lparr>resp_text = None\<rparr>, \<lparr>resp_text = None\<rparr>, \<lparr>resp_text = None\<rparr>, \<lparr>resp_text = None\<rparr>, \<lparr>resp_text = None\<rparr>, \<lparr>resp_text = None\<rparr>, \<lparr>resp_text = None\<rparr>]"])
    using n1 throws1(2)
    by (simp add: stage_requests_def less_Suc_eq all_conj_distrib imp_disjL add.assoc)
next
  case (throws2 e r1 w1)
  from generateWithRetry_last_attempt [OF throws2(1)] obtain n1 where n1:
    "1 \<le> n1" "calls w1 = calls w0 @ replicate n1 (summaryRequest (InlineData m f))"
    "attempts w1 = attempts w0 + n1"
    "remote (attempts w0 + n1 - 1) (summaryRequest (InlineData m f)) = Resolves r1"
    by (auto simp: calls_stage_start calls_parse_log)
  from generateWithRetry_last_attempt [OF throws2(2)] obtain n2 where n2:
    "1 \<le> n2" "calls w = calls w1 @ replicate n2 (critiqueRequest (InlineData m f))"
    "attempts w = attempts w1 + n2"
    "remote (attempts w1 + n2 - 1) (critiqueRequest (InlineData m f)) = Rejects e"
    by (auto simp: calls_stage_start calls_parse_log)
  show ?thesis
    apply (rule exI [of _ "[n1, n2]"])
    apply (rule exI [of _ "[r1, \<lparr>resp_text = None\<rparr>, \<lparr>resp_text = None\<rparr>, \<lparr>resp_text = None\<rparr>, \<lparr>resp_text = None\<rparr>, \<lparr>resp_text = None\<rparr>, \<lparr>resp_text = None\<rparr>]"])
    using n1 n2 throws2(3)
    by (simp add: stage_requests_def less_Suc_eq all_conj_distrib imp_disjL add.assoc)
next
  case (throws3 e r1 w1 r2 w2)
  from generateWithRetry_last_attempt [OF throws3(1)] obtain n1 where n1:
    "1 \<le> n1" "calls w1 = calls w0 @ replicate n1 (summaryRequest (InlineData m f))"
    "attempts w1 = attempts w0 + n1"
    "remote (attempts w0 + n1 - 1) (summaryRequest (InlineData m f)) = Resolves r1"
    by (auto simp: calls_stage_start calls_parse_log)
  from generateWithRetry_last_attempt [OF throws3(2)] obtain n2 where n2:
    "1 \<le> n2" "calls w2 = calls w1 @ replicate n2 (critiqueRequest (InlineData m f))"
    "attempts w2 = attempts w1 + n2"
    "remote (attempts w1 + n2 - 1) (critiqueRequest (InlineData m f)) = Resolves r2"
    by (auto simp: calls_stage_start calls_parse_log)
  from generateWithRetry_last_attempt [OF throws3(3)] obtain n3 where n3:
    "1 \<le> n3" "calls w = calls w2 @ replicate n3 (experimentRequest (InlineData m f))"
    "attempts w = attempts w2 + n3"
    "remote (attempts w2 + n3 - 1) (experimentRequest (InlineData m f)) = Rejects e"
    by (auto simp: calls_stage_start calls_parse_log)
  show ?thesis
    apply (rule exI [of _ "[n1, n2, n3]"])
    apply (rule exI [of _ "[r1, r2, \<lparr>resp_text = None\<rparr>, \<lparr>resp_text = None\<rparr>, \<lparr>resp_text = None\<rparr>, \<lparr>resp_text = None\<rparr>, \<lparr>resp_text = None\<rparr>]"])
    using n1 n2 n3 throws3(4)
    by (simp add: stage_requests_def less_Suc_eq all_conj_distrib imp_disjL add.assoc)
next
  case (throws4 e r1 w1 r2 w2 r3 w3)
  from generateWithRetry_last_attempt [OF throws4(1)] obtain n1 where n1:
    "1 \<le> n1" "calls w1 = calls w0 @ replicate n1 (summaryRequest (InlineData m f))"
    "attempts w1 = attempts w0 + n1"
    "remote (attempts w0 + n1 - 1) (summaryRequest (InlineData m f)) = Resolves r1"
    by (auto simp: calls_stage_start calls_parse_log)
  from generateWithRetry_last_attempt [OF throws4(2)] obtain n2 where n2:
    "1 \<le> n2" "calls w2 = calls w1 @ replicate n2 (critiqueRequest (InlineData m f))"
    "attempts w2 = attempts w1 + n2"
    "remote (attempts w1 + n2 - 1) (critiqueRequest (InlineData m f)) = Resolves r2"
    by (auto simp: calls_stage_start calls_parse_log)
  from generateWithRetry_last_attempt [OF throws4(3)] obtain n3 where n3:
    "1 \<le> n3" "calls w3 = calls w2 @ replicate n3 (experimentRequest (InlineData m f))"
    "attempts w3 = attempts w2 + n3"
    "remote (attempts w2 + n3 - 1) (experimentRequest (InlineData m f)) = Resolves r3"
    by (auto simp: calls_stage_start calls_parse_log)
  from generateWithRetry_last_attempt [OF throws4(4)] obtain n4 where n4:
    "1 \<le> n4" "calls w = calls w3 @ replicate n4 (codeRequest (plan_of r3))"
    "attempts w = attempts w3 + n4"
    "remote (attempts w3 + n4 - 1) (codeRequest (plan_of r3)) = Rejects e"
    by (auto simp: calls_stage_start calls_parse_log)
  show ?thesis
    apply (rule exI [of _ "[n1, n2, n3, n4]"])
    apply (rule exI [of _ "[r1, r2, r3, \<lparr>resp_text = None\<rparr>, \<lparr>resp_text = None\<rparr>, \<lparr>resp_text = None\<rparr>, \<lparr>resp_text = None\<rparr>]"])
    using n1 n2 n3 n4 throws4(5)
    by (simp add: stage_requests_def less_Suc_eq all_conj_distrib imp_disjL add.assoc)
next
  case (throws5 e r1 w1 r2 w2 r3 w3 r4 w4)
  from generateWithRetry_last_attempt [OF throws5(1)] obtain n1 where n1:
    "1 \<le> n1" "calls w1 = calls w0 @ replicate n1 (summaryRequest (InlineData m f))"
    "attempts w1 = attempts w0 + n1"
    "remote (attempts w0 + n1 - 1) (summaryRequest (InlineData m f)) = Resolves r1"
    by (auto simp: calls_stage_start calls_parse_log)
  from generateWithRetry_last_attempt [OF throws5(2)] obtain n2 where n2:
    "1 \<le> n2" "calls w2 = calls w1 @ replicate n2 (critiqueRequest (InlineData m f))"
    "attempts w2 = attempts w1 + n2"
    "remote (attempts w1 + n2 - 1) (critiqueRequest (InlineData m f)) = Resolves r2"
    by (auto simp: calls_stage_start calls_parse_log)
  from generateWithRetry_last_attempt [OF throws5(3)] obtain n3 where n3:
    "1 \<le> n3" "calls w3 = calls w2 @ replicate n3 (experimentRequest (InlineData m f))"
    "attempts w3 = attempts w2 + n3"
    "remote (attempts w2 + n3 - 1) (experimentRequest (InlineData m f)) = Resolves r3"
    by (auto simp: calls_stage_start calls_parse_log)
  from generateWithRetry_last_attempt [OF throws5(4)] obtain n4 where n4:
    "1 \<le> n4" "calls w4 = calls w3 @ replicate n4 (codeRequest (plan_of r3))"
    "attempts w4 = attempts w3 + n4"
    "remote (attempts w3 + n4 - 1) (codeRequest (plan_of r3)) = Resolves r4"
    by (auto simp: calls_stage_start calls_parse_log)
  from generateWithRetry_last_attempt [OF throws5(5)] obtain n5 where n5:
    "1 \<le> n5" "calls w = calls w4 @ replicate n5 (slidesRequest (InlineData m f) (summary_of r1) (plan_of r3))"
    "attempts w = attempts w4 + n5"
    "remote (attempts w4 + n5 - 1) (slidesRequest (InlineData m f) (summary_of r1) (plan_of r3)) = Rejects e"
    by (auto simp: calls_stage_start calls_parse_log)
  show ?thesis
    apply (rule exI [of _ "[n1, n2, n3, n4, n5]"])
    apply (rule exI [of _ "[r1, r2, r3, r4, \<lparr>resp_text = None\<rparr>, \<lparr>resp_text = None\<rparr>, \<lparr>resp_text = None\<rparr>]"])
    using n1 n2 n3 n4 n5 throws5(6)
    by (simp add: stage_requests_def less_Suc_eq all_conj_distrib imp_disjL add.assoc)
next
  case (throws6 e r1 w1 r2 w2 r3 w3 r4 w4 r5 w5)
  from generateWithRetry_last_attempt [OF throws6(1)] obtain n1 where n1:
    "1 \<le> n1" "calls w1 = calls w0 @ replicate n1 (summaryRequest (InlineData m f))"
    "attempts w1 = attempts w0 + n1"
    "remote (attempts w0 + n1 - 1) (summaryRequest (InlineData m f)) = Resolves r1"
    by (auto simp: calls_stage_start calls_parse_log)
  from generateWithRetry_last_attempt [OF throws6(2)] obtain n2 where n2:
    "1 \<le> n2" "calls w2 = calls w1 @ replicate n2 (critiqueRequest (InlineData m f))"
    "attempts w2 = attempts w1 + n2"
    "remote (attempts w1 + n2 - 1) (critiqueRequest (InlineData m f)) = Resolves r2"
    by (auto simp: calls_stage_start calls_parse_log)
  from generateWithRetry_last_attempt [OF throws6(3)] obtain n3 where n3:
    "1 \<le> n3" "calls w3 = calls w2 @ replicate n3 (experimentRequest (InlineData m f))"
    "attempts w3 = attempts w2 + n3"
    "remote (attempts w2 + n3 - 1) (experimentRequest (InlineData m f)) = Resolves r3"
    by (auto simp: calls_stage_start calls_parse_log)
  from generateWithRetry_last_attempt [OF throws6(4)] obtain n4 where n4:
    "1 \<le> n4" "calls w4 = calls w3 @ replicate n4 (codeRequest (plan_of r3))"
    "attempts w4 = attempts w3 + n4"
    "remote (attempts w3 + n4 - 1) (codeRequest (plan_of r3)) = Resolves r4"
    by (auto simp: calls_stage_start calls_parse_log)
  from generateWithRetry_last_attempt [OF throws6(5)] obtain n5 where n5:
    "1 \<le> n5" "calls w5 = calls w4 @ replicate n5 (slidesRequest (InlineData m f) (summary_of r1) (plan_of r3))"
    "attempts w5 = attempts w4 + n5"
    "remote (attempts w4 + n5 - 1) (slidesRequest (InlineData m f) (summary_of r1) (plan_of r3)) = Resolves r5"
    by (auto simp: calls_stage_start calls_parse_log)
  from generateWithRetry_last_attempt [OF throws6(6)] obtain n6 where n6:
    "1 \<le> n6" "calls w = calls w5 @ replicate n6 (interpretationRequest (plan_of r3))"
    "attempts w = attempts w5 + n6"
    "remote (attempts w5 + n6 - 1) (interpretationRequest (plan_of r3)) = Rejects e"
    by (auto simp: calls_stage_start calls_parse_log)
  show ?thesis
    apply (rule exI [of _ "[n1, n2, n3, n4, n5, n6]"])
    apply (rule exI [of _ "[r1, r2, r3, r4, r5, \<lparr>resp_text = None\<rparr>, \<lparr>resp_text = None\<rparr>]"])
    using n1 n2 n3 n4 n5 n6 throws6(7)
    by (simp add: stage_requests_def less_Suc_eq all_conj_distrib imp_disjL add.assoc)
next
  case (throws7 e r1 w1 r2 w2 r3 w3 r4 w4 r5 w5 r6 w6)
  from generateWithRetry_last_attempt [OF throws7(1)] obtain n1 where n1:
    "1 \<le> n1" "calls w1 = calls w0 @ replicate n1 (summaryRequest (InlineData m f))"
    "attempts w1 = attempts w0 + n1"
    "remote (attempts w0 + n1 - 1) (summaryRequest (InlineData m f)) = Resolves r1"
    by (auto simp: calls_stage_start calls_parse_log)
  from generateWithRetry_last_attempt [OF throws7(2)] obtain n2 where n2:
    "1 \<le> n2" "calls w2 = calls w1 @ replicate n2 (critiqueRequest (InlineData m f))"
    "attempts w2 = attempts w1 + n2"
    "remote (attempts w1 + n2 - 1) (critiqueRequest (InlineData m f)) = Resolves r2"
    by (auto simp: calls_stage_start calls_parse_log)
  from generateWithRetry_last_attempt [OF throws7(3)] obtain n3 where n3:
    "1 \<le> n3" "calls w3 = calls w2 @ replicate n3 (experimentRequest (InlineData m f))"
    "attempts w3 = attempts w2 + n3"
    "remote (attempts w2 + n3 - 1) (experimentRequest (InlineData m f)) = Resolves r3"
    by (auto simp: calls_stage_start calls_parse_log)
  from generateWithRetry_last_attempt [OF throws7(4)] obtain n4 where n4:
    "1 \<le> n4" "calls w4 = calls w3 @ replicate n4 (codeRequest (plan_of r3))"
    "attempts w4 = attempts w3 + n4"
    "remote (attempts w3 + n4 - 1) (codeRequest (plan_of r3)) = Resolves r4"
    by (auto simp: calls_stage_start calls_parse_log)
  from generateWithRetry_last_attempt [OF throws7(5)] obtain n5 where n5:
    "1 \<le> n5" "calls w5 = calls w4 @ replicate n5 (slidesRequest (InlineData m f) (summary_of r1) (plan_of r3))"
    "attempts w5 = attempts w4 + n5"
    "remote (attempts w4 + n5 - 1) (slidesRequest (InlineData m f) (summary_of r1) (plan_of r3)) = Resolves r5"
    by (auto simp: calls_stage_start calls_parse_log)
  from generateWithRetry_last_attempt [OF throws7(6)] obtain n6 where n6:
    "1 \<le> n6" "calls w6 = calls w5 @ replicate n6 (interpretationRequest (plan_of r3))"
    "attempts w6 = attempts w5 + n6"
    "remote (attempts w5 + n6 - 1) (interpretationRequest (plan_of r3)) = Resolves r6"
    by (auto simp: calls_stage_start calls_parse_log)
  from generateWithRetry_last_attempt [OF throws7(7)] obtain n7 where n7:
    "1 \<le> n7" "calls w = calls w6 @ replicate n7 (validationRequest (InlineData m f) (summary_of r1) (critique_of r2) (plan_of r3))"
    "attempts w = attempts w6 + n7"
    "remote (attempts w6 + n7 - 1) (validationRequest (InlineData m f) (summary_of r1) (critique_of r2) (plan_of r3)) = Rejects e"
    by (auto simp: calls_stage_start calls_parse_log)
  show ?thesis
    apply (rule exI [of _ "[n1, n2, n3, n4, n5, n6, n7]"])
    apply (rule exI [of _ "[r1, r2, r3, r4, r5, r6, \<lparr>resp_text = None\<rparr>]"])
    using n1 n2 n3 n4 n5 n6 n7 throws7(8)
    by (simp add: stage_requests_def less_Suc_eq all_conj_distrib imp_disjL add.assoc)
next
  case (returns r1 w1 r2 w2 r3 w3 r4 w4 r5 w5 r6 w6 r7 w7)
  from generateWithRetry_last_attempt [OF returns(1)] obtain n1 where n1:
    "1 \<le> n1" "calls w1 = calls w0 @ replicate n1 (summaryRequest (InlineData m f))"
    "attempts w1 = attempts w0 + n1"
    "remote (attempts w0 + n1 - 1) (summaryRequest (InlineData m f)) = Resolves r1"
    by (auto simp: calls_stage_start calls_parse_log)
  from generateWithRetry_last_attempt [OF returns(2)] obtain n2 where n2:
    "1 \<le> n2" "calls w2 = calls w1 @ replicate n2 (critiqueRequest (InlineData m f))"
    "attempts w2 = attempts w1 + n2"
    "remote (attempts w1 + n2 - 1) (critiqueRequest (InlineData m f)) = Resolves r2"
    by (auto simp: calls_stage_start calls_parse_log)
  from generateWithRetry_last_attempt [OF returns(3)] obtain n3 where n3:
    "1 \<le> n3" "calls w3 = calls w2 @ replicate n3 (experimentRequest (InlineData m f))"
    "attempts w3 = attempts w2 + n3"
    "remote (attempts w2 + n3 - 1) (experimentRequest (InlineData m f)) = Resolves r3"
    by (auto simp: calls_stage_start calls_parse_log)
  from generateWithRetry_last_attempt [OF returns(4)] obtain n4 where n4:
    "1 \<le> n4" "calls w4 = calls w3 @ replicate n4 (codeRequest (plan_of r3))"
    "attempts w4 = attempts w3 + n4"
    "remote (attempts w3 + n4 - 1) (codeRequest (plan_of r3)) = Resolves r4"
    by (auto simp: calls_stage_start calls_parse_log)
  from generateWithRetry_last_attempt [OF returns(5)] obtain n5 where n5:
    "1 \<le> n5" "calls w5 = calls w4 @ replicate n5 (slidesRequest (InlineData m f) (summary_of r1) (plan_of r3))"
    "attempts w5 = attempts w4 + n5"
    "remote (attempts w4 + n5 - 1) (slidesRequest (InlineData m f) (summary_of r1) (plan_of r3)) = Resolves r5"
    by (auto simp: calls_stage_start calls_parse_log)
  from generateWithRetry_last_attempt [OF returns(6)] obtain n6 where n6:
    "1 \<le> n6" "calls w6 = calls w5 @ replicate n6 (interpretationRequest (plan_of r3))"
    "attempts w6 = attempts w5 + n6"
    "remote (attempts w5 + n6 - 1) (interpretationRequest (plan_of r3)) = Resolves r6"
    by (auto simp: calls_stage_start calls_parse_log)
  from generateWithRetry_last_attempt [OF returns(7)] obtain n7 where n7:
    "1 \<le> n7" "calls w7 = calls w6 @ replicate n7 (validationRequest (InlineData m f) (summary_of r1) (critique_of r2) (plan_of r3))"
    "attempts w7 = attempts w6 + n7"
    "remote (attempts w6 + n7 - 1) (validationRequest (InlineData m f) (summary_of r1) (critique_of r2) (plan_of r3)) = Resolves r7"
    by (auto simp: calls_stage_start calls_parse_log)
  show ?thesis
    apply (rule exI [of _ "[n1, n2, n3, n4, n5, n6, n7]"])
    apply (rule exI [of _ "[r1, r2, r3, r4, r5, r6, r7]"])
    using n1 n2 n3 n4 n5 n6 n7 returns(8) returns(9)
    by (simp add: stage_requests_def less_Suc_eq all_conj_distrib imp_disjL add.assoc)
qed

lemma generateWithRetry_answers:
  "attempts w < length rs \<Longrightarrow>
   generateWithRetry (answers rs) q 10 10000 w = (Inr (rs ! attempts w), w @ [Call q])"
  by (simp add: generateWithRetry_def retry_loop.simps answers_def)

lemma generateAnalysis_returns_if:
  assumes "generateWithRetry remote (summaryRequest (InlineData m f)) 10 10000
             (w0 @ stage_start 1) = (Inr r1, w1)"
    and "generateWithRetry remote (critiqueRequest (InlineData m f)) 10 10000
             (w1 @ stage_start 2) = (Inr r2, w2)"
    and "generateWithRetry remote (experimentRequest (InlineData m f)) 10 10000
             (w2 @ stage_start 3) = (Inr r3, w3)"
    and "generateWithRetry remote (codeRequest (plan_of r3)) 10 10000
             (w3 @ stage_start 4) = (Inr r4, w4)"
    and "generateWithRetry remote
             (slidesRequest (InlineData m f) (summary_of r1) (plan_of r3)) 10 10000
             (w4 @ stage_start 5) = (Inr r5, w5)"
    and "generateWithRetry remote (interpretationRequest (plan_of r3)) 10 10000
             (w5 @ parse_log P r5 @ stage_start 6) = (Inr r6, w6)"
    and "generateWithRetry remote
             (validationRequest (InlineData m f) (summary_of r1) (critique_of r2) (plan_of r3))
             10 10000 (w6 @ stage_start 7) = (Inr r7, w7)"
  shows "generateAnalysis P remote f m w0 =
           (Inr \<lparr>summary = summary_of r1, critique = critique_of r2, experimentPlan = plan_of r3,
                 pythonCode = code_of r4, experimentInterpretation = interpretation_of r6,
                 validationReport = validation_of r7, slides = slides_of P r5\<rparr>, w7)"
  using assms by (simp add: run_simps)

text \<open>
  Conversely, a run returns a bundle only when every stage received a response, and it
  throws only what a \<^verbatim>\<open>generateWithRetry\<close> threw: no text of a response aborts a run.
\<close>

lemma generateAnalysis_returns_only_if:
  assumes "generateAnalysis P remote f m w0 = (Inr b, w)"
  shows "\<exists>r1 r2 r3 r4 r5 r6 r7.
           b = \<lparr>summary = summary_of r1, critique = critique_of r2, experimentPlan = plan_of r3,
                pythonCode = code_of r4, experimentInterpretation = interpretation_of r6,
                validationReport = validation_of r7, slides = slides_of P r5\<rparr>"
  using assms by (cases rule: generateAnalysis_cases) auto

lemma generateAnalysis_throws_only_from_generateWithRetry:
  assumes "generateAnalysis P remote f m w0 = (Inl e, w)"
  shows "\<exists>q w'. generateWithRetry remote q 10 10000 w' = (Inl e, w)"
  using assms by (cases rule: generateAnalysis_cases) auto

lemma answers_stages:
  fixes rs :: "response list" and m f :: jsstring and P :: json_parser
  assumes "length rs = 7"
  defines "fp \<equiv> InlineData m f"
  defines "w1 \<equiv> stage_start 1 @ [Call (summaryRequest fp)]"
  defines "w2 \<equiv> w1 @ stage_start 2 @ [Call (critiqueRequest fp)]"
  defines "w3 \<equiv> w2 @ stage_start 3 @ [Call (experimentRequest fp)]"
  defines "w4 \<equiv> w3 @ stage_start 4 @ [Call (codeRequest (plan_of (rs ! 2)))]"
  defines "w5 \<equiv> w4 @ stage_start 5 @
     [Call (slidesRequest fp (summary_of (rs ! 0)) (plan_of (rs ! 2)))]"
  defines "w6 \<equiv> w5 @ parse_log P (rs ! 4) @ stage_start 6 @
     [Call (interpretationRequest (plan_of (rs ! 2)))]"
  defines "w7 \<equiv> w6 @ stage_start 7 @
     [Call (validationRequest fp (summary_of (rs ! 0)) (critique_of (rs ! 1)) (plan_of (rs ! 2)))]"
  shows "generateWithRetry (answers rs) (summaryRequest fp) 10 10000 ([] @ stage_start 1)
           = (Inr (rs ! 0), w1)"
    and "generateWithRetry (answers rs) (critiqueRequest fp) 10 10000 (w1 @ stage_start 2)
           = (Inr (rs ! 1), w2)"
    and "generateWithRetry (answers rs) (experimentRequest fp) 10 10000 (w2 @ stage_start 3)
           = (Inr (rs ! 2), w3)"
    and "generateWithRetry (answers rs) (codeRequest (plan_of (rs ! 2))) 10 10000
           (w3 @ stage_start 4) = (Inr (rs ! 3), w4)"
    and "generateWithRetry (answers rs)
           (slidesRequest fp (summary_of (rs ! 0)) (plan_of (rs ! 2))) 10 10000
           (w4 @ stage_start 5) = (Inr (rs ! 4), w5)"
    and "generateWithRetry (answers rs) (interpretationRequest (plan_of (rs ! 2))) 10 10000
           (w5 @ parse_log P (rs ! 4) @ stage_start 6) = (Inr (rs ! 5), w6)"
    and "generateWithRetry (answers rs)
           (validationRequest fp (summary_of (rs ! 0)) (critique_of (rs ! 1)) (plan_of (rs ! 2)))
           10 10000 (w6 @ stage_start 7) = (Inr (rs ! 6), w7)"
  using assms(1) unfolding w1_def w2_def w3_def w4_def w5_def w6_def w7_def
  by (simp_all add: generateWithRetry_answers numeral_2_eq_2 [symmetric])

lemma generateAnalysis_answers:
  assumes "length rs = 7"
  shows "generateAnalysis P (answers rs) f m [] =
           (Inr \<lparr>summary = summary_of (rs ! 0), critique = critique_of (rs ! 1),
                 experimentPlan = plan_of (rs ! 2), pythonCode = code_of (rs ! 3),
                 experimentInterpretation = interpretation_of (rs ! 5),
                 validationReport = validation_of (rs ! 6), slides = slides_of P (rs ! 4)\<rparr>,
            stage_start 1 @ [Call (summaryRequest (InlineData m f))] @
            stage_start 2 @ [Call (critiqueRequest (InlineData m f))] @
            stage_start 3 @ [Call (experimentRequest (InlineData m f))] @
            stage_start 4 @ [Call (codeRequest (plan_of (rs ! 2)))] @
            stage_start 5 @
              [Call (slidesRequest (InlineData m f) (summary_of (rs ! 0)) (plan_of (rs ! 2)))] @
            parse_log P (rs ! 4) @
            stage_start 6 @ [Call (interpretationRequest (plan_of (rs ! 2)))] @
            stage_start 7 @
              [Call (validationRequest (InlineData m f) (summary_of (rs ! 0))
                       (critique_of (rs ! 1)) (plan_of (rs ! 2)))])"
  using generateAnalysis_returns_if [OF answers_stages [OF assms]] by simp

lemma sample_run:
  "generateAnalysis json_parse_fragment (answers (replicate 7 ok_response)) sample_file sample_mime [] =
      (Inr \<lparr>summary = ustr ''ok'', critique = ustr ''ok'', experimentPlan = ustr ''ok'',
            pythonCode = code_of ok_response, experimentInterpretation = ustr ''ok'',
            validationReport = ustr ''ok'', slides = slides_of json_parse_fragment ok_response\<rparr>,
       snd (generateAnalysis json_parse_fragment (answers (replicate 7 ok_response)) sample_file sample_mime []))"
proof -
  have ok: "ustr ''ok'' \<noteq> []" by (simp add: ustr_def)
  then show ?thesis
    by (simp add: generateAnalysis_answers summary_of_def critique_of_def plan_of_def
        interpretation_of_def validation_of_def js_or_def ok_response_def)
qed

lemma js_or_cases:
  "js_or a d = (if a = None \<or> a = Some [] then d else the a)"
  by (cases a) (simp_all add: js_or_def)

lemma cleanCode_placeholder:
  "cleanCode (ustr ''# Failed to generate code.'') = ustr ''# Failed to generate code.''"
  by (simp add: cleanCode_def trim_def replace_first_def python_fence_rx_def
      leading_fence_rx_def trailing_fence_rx_def ustr_def is_space_def to_upper_ascii_def)

lemma ok_not_empty: "ustr ''ok'' \<noteq> []"
  by (simp add: ustr_def)

lemma cleanCode_ok: "cleanCode (ustr ''ok'') = ustr ''ok''"
  by (simp add: cleanCode_def trim_def replace_first_def python_fence_rx_def
      leading_fence_rx_def trailing_fence_rx_def ustr_def is_space_def to_upper_ascii_def)

lemma json_parse_fragment_empty_array:
  "json_parse_fragment (ustr ''[]'') = Some (JsonArray [])"
  by (simp add: json_parse_fragment_def ustr_def json_ws_def)

lemma slides_of_sample:
  "slides_of json_parse_fragment slides_response =
     JsonArray
       [JsonObject
          [(ustr ''title'', JsonString (ustr ''Core Idea'')),
           (ustr ''bullets'', JsonArray [JsonString (ustr ''one''), JsonString (ustr ''two'')])]]"
  by (simp add: slides_of_def slides_response_def slides_text_def js_or_def cleanJson_def
      trim_def replace_first_def json_fence_rx_def leading_fence_rx_def trailing_fence_rx_def
      json_parse_fragment_def json_ws_def ustr_def is_space_def to_upper_ascii_def)


lemma stage_requests_parts:
  "map parts (stage_requests (InlineData m f) summ crit plan) =
     [[InlineData m f, TextPart summaryPrompt],
      [InlineData m f, TextPart critiquePrompt],
      [InlineData m f, TextPart experimentPrompt],
      [TextPart (codePrompt plan)],
      [InlineData m f, TextPart (slidesPrompt summ plan)],
      [TextPart (interpretationPrompt plan)],
      [InlineData m f, TextPart (validationPrompt summ crit plan)]]"
  by (simp add: stage_requests_def summaryRequest_def critiqueRequest_def experimentRequest_def
      codeRequest_def slidesRequest_def interpretationRequest_def validationRequest_def)

lemma stage_requests_config:
  "map config (stage_requests fp summ crit plan) =
     [Some \<lparr>systemInstruction = Some systemInstructionText,
            responseMimeType = None, responseSchema = None\<rparr>,
      Some \<lparr>systemInstruction = Some systemInstructionText,
            responseMimeType = None, responseSchema = None\<rparr>,
      Some \<lparr>systemInstruction = Some systemInstructionText,
            responseMimeType = None, responseSchema = None\<rparr>,
      None,
      Some \<lparr>systemInstruction = None,
            responseMimeType = Some (ustr ''application/json''),
            responseSchema = Some slidesSchema\<rparr>,
      None,
      None]"
  by (simp add: stage_requests_def summaryRequest_def critiqueRequest_def experimentRequest_def
      codeRequest_def slidesRequest_def interpretationRequest_def validationRequest_def)

lemma stage_requests_system_instruction:
  "map system_instruction_of (stage_requests fp summ crit plan) =
     [Some systemInstructionText, Some systemInstructionText, Some systemInstructionText,
      None, None, None, None]"
  by (simp add: stage_requests_def summaryRequest_def critiqueRequest_def experimentRequest_def
      codeRequest_def slidesRequest_def interpretationRequest_def validationRequest_def
      system_instruction_of_def)

subsection \<open>The requests of the stages\<close>

text \<open>
  Every instruction text that depends on earlier outputs is a concatenation of fixed
  texts and those outputs.
\<close>

lemma prompts_embed_outputs:
  "\<exists>a b. \<forall>plan. codePrompt plan = a @ plan @ b"
  "\<exists>a b c. \<forall>summ plan. slidesPrompt summ plan = a @ summ @ b @ plan @ c"
  "\<exists>a b. \<forall>plan. interpretationPrompt plan = a @ plan @ b"
  "\<exists>a b c d. \<forall>summ crit plan.
     validationPrompt summ crit plan = a @ summ @ b @ crit @ c @ plan @ d"
  unfolding codePrompt_def slidesPrompt_def interpretationPrompt_def validationPrompt_def
  by (intro exI allI, rule refl)+

text \<open>
  Claim C2, amended. In every run of the pipeline, completed or aborted, the requests
  issued are those of the stages in order, each repeated once per attempt: \<open>ns\<close> holds
  the number of attempts of every stage that was started. The input document is attached
  to the requests of stages 1, 2, 3, 5 and 7, and the requests of stages 4 and 6 do not
  contain it. The text of every request is the fixed instruction text of its stage, with
  the outputs of earlier stages of the same run embedded in it: the experiment plan in
  stages 4 and 6, the summary and the plan in stage 5, the summary, the critique and the
  plan in stage 7 (\<open>prompts_embed_outputs\<close>). These outputs are computed from the
  responses \<open>rs\<close> of the run (the summary is \<open>summary_of (rs ! 0)\<close>, the critique
  \<open>critique_of (rs ! 1)\<close>, the plan \<open>plan_of (rs ! 2)\<close>): the response of a stage that
  completed is the one with which the endpoint resolved the last attempt of that stage.
  For stage \<open>j + 1\<close> this attempt is the call number \<open>ns ! 0 + \<dots> + ns ! j\<close> of the run,
  counted after the calls of the initial trace, and the endpoint is indexed by the
  number of calls made before it. A run that throws stops at the stage whose last
  attempt the endpoint rejected, with the error of that rejection.
  A run that returns a bundle called all seven stages, and the outputs embedded in the
  requests are the bundle's fields.
\<close>

theorem document_attached_to_stages:
  assumes "generateAnalysis JSON_parse remote fileBase64 mimeType w0 = (res, w)"
  shows "\<exists>ns rs qs.
           ns \<noteq> [] \<and> length ns \<le> 7 \<and> (\<forall>n\<in>set ns. 1 \<le> n) \<and> length rs = 7 \<and>
           calls w = calls w0 @ concat (map2 replicate ns qs) \<and>
           map parts qs =
             [[InlineData mimeType fileBase64, TextPart summaryPrompt],
              [InlineData mimeType fileBase64, TextPart critiquePrompt],
              [InlineData mimeType fileBase64, TextPart experimentPrompt],
              [TextPart (codePrompt (plan_of (rs ! 2)))],
              [InlineData mimeType fileBase64,
               TextPart (slidesPrompt (summary_of (rs ! 0)) (plan_of (rs ! 2)))],
              [TextPart (interpretationPrompt (plan_of (rs ! 2)))],
              [InlineData mimeType fileBase64,
               TextPart (validationPrompt (summary_of (rs ! 0)) (critique_of (rs ! 1))
                           (plan_of (rs ! 2)))]] \<and>
           (\<forall>j. Suc j < length ns \<longrightarrow>
              remote (attempts w0 + sum_list (take (Suc j) ns) - 1) (qs ! j) =
                Resolves (rs ! j)) \<and>
           (\<forall>e. res = Inl e \<longrightarrow>
              remote (attempts w0 + sum_list ns - 1) (qs ! (length ns - 1)) = Rejects e) \<and>
           (\<forall>b. res = Inr b \<longrightarrow>
              length ns = 7 \<and>
              remote (attempts w0 + sum_list ns - 1) (qs ! 6) = Resolves (rs ! 6) \<and>
              summary b = summary_of (rs ! 0) \<and> critique b = critique_of (rs ! 1) \<and>
              experimentPlan b = plan_of (rs ! 2))"
  using generateAnalysis_stage_responses [OF assms]
  apply (elim exE conjE)
  subgoal for ns rs
    apply (rule exI [of _ ns])
    apply (rule exI [of _ rs])
    apply (rule exI [of _ "stage_requests (InlineData mimeType fileBase64)
             (summary_of (rs ! 0)) (critique_of (rs ! 1)) (plan_of (rs ! 2))"])
    apply (intro conjI; (assumption | rule stage_requests_parts))
    done
  done

theorem document_attached_to_stages_witness:
  "\<exists>ns rs qs.
     length ns = 7 \<and> (\<forall>n\<in>set ns. 1 \<le> n) \<and> length rs = 7 \<and>
     (\<forall>j<7. rs ! j = ok_response) \<and>
     calls (snd (generateAnalysis json_parse_fragment (answers (replicate 7 ok_response))
                   sample_file sample_mime [])) = concat (map2 replicate ns qs) \<and>
     map parts qs =
       [[InlineData sample_mime sample_file, TextPart summaryPrompt],
        [InlineData sample_mime sample_file, TextPart critiquePrompt],
        [InlineData sample_mime sample_file, TextPart experimentPrompt],
        [TextPart (codePrompt (ustr ''ok''))],
        [InlineData sample_mime sample_file, TextPart (slidesPrompt (ustr ''ok'') (ustr ''ok''))],
        [TextPart (interpretationPrompt (ustr ''ok''))],
        [InlineData sample_mime sample_file,
         TextPart (validationPrompt (ustr ''ok'') (ustr ''ok'') (ustr ''ok''))]]"
proof -
  from document_attached_to_stages [OF sample_run]
  obtain ns rs qs where t:
    "length rs = 7"
    "\<forall>n\<in>set ns. 1 \<le> n"
    "calls (snd (generateAnalysis json_parse_fragment (answers (replicate 7 ok_response))
                   sample_file sample_mime [])) = concat (map2 replicate ns qs)"
    "map parts qs =
       [[InlineData sample_mime sample_file, TextPart summaryPrompt],
        [InlineData sample_mime sample_file, TextPart critiquePrompt],
        [InlineData sample_mime sample_file, TextPart experimentPrompt],
        [TextPart (codePrompt (plan_of (rs ! 2)))],
        [InlineData sample_mime sample_file,
         TextPart (slidesPrompt (summary_of (rs ! 0)) (plan_of (rs ! 2)))],
        [TextPart (interpretationPrompt (plan_of (rs ! 2)))],
        [InlineData sample_mime sample_file,
         TextPart (validationPrompt (summary_of (rs ! 0)) (critique_of (rs ! 1))
                     (plan_of (rs ! 2)))]]"
    "\<forall>j. Suc j < length ns \<longrightarrow>
       answers (replicate 7 ok_response) (sum_list (take (Suc j) ns) - 1) (qs ! j) =
         Resolves (rs ! j)"
    "length ns = 7"
    "answers (replicate 7 ok_response) (sum_list ns - 1) (qs ! 6) = Resolves (rs ! 6)"
    "summary_of (rs ! 0) = ustr ''ok''" "critique_of (rs ! 1) = ustr ''ok''"
    "plan_of (rs ! 2) = ustr ''ok''"
    by auto
  have "rs ! j = ok_response" if "j < 7" for j
  proof (cases "j = 6")
    case True
    with t(7) show ?thesis by (auto simp: answers_def split: if_splits)
  next
    case False
    with that t(6) have "Suc j < length ns" by simp
    with t(5) show ?thesis by (auto simp: answers_def split: if_splits)
  qed
  then have "\<forall>j<7. rs ! j = ok_response" by simp
  with t show ?thesis
    apply (intro exI [of _ ns] exI [of _ rs] exI [of _ qs])
    apply simp
    done
qed

text \<open>
  The claim as stated excludes the document from the request of stage 3. In a run
  without retries the third request is that of stage 3, and it carries the document.
\<close>

theorem experiment_request_has_document_counterexample:
  "parts (calls (snd (generateAnalysis json_parse_fragment (answers (replicate 7 ok_response))
                        sample_file sample_mime [])) ! 2) =
     [InlineData sample_mime sample_file, TextPart experimentPrompt] \<and>
   InlineData sample_mime sample_file \<in>
     set (parts (calls (snd (generateAnalysis json_parse_fragment
                               (answers (replicate 7 ok_response))
                               sample_file sample_mime [])) ! 2))"
  by (simp add: generateAnalysis_answers experimentRequest_def)

text \<open>
  Claim C10. In every run of the pipeline, completed or aborted, the requests issued are
  those of the stages in order, each repeated once per attempt. The configuration of the
  requests of stages 1, 2 and 3 holds the system instruction; the requests of stages 4,
  6 and 7 have no configuration, and the configuration of the request of stage 5 holds
  the response MIME type and schema only. So the requests of stages 4 to 7 contain no
  system instruction.
\<close>

theorem system_instruction_only_in_first_three_stages:
  assumes "generateAnalysis JSON_parse remote fileBase64 mimeType w0 = (res, w)"
  shows "\<exists>ns qs.
           ns \<noteq> [] \<and> length ns \<le> 7 \<and> (\<forall>n\<in>set ns. 1 \<le> n) \<and>
           calls w = calls w0 @ concat (map2 replicate ns qs) \<and>
           map config qs =
             [Some \<lparr>systemInstruction = Some systemInstructionText,
                    responseMimeType = None, responseSchema = None\<rparr>,
              Some \<lparr>systemInstruction = Some systemInstructionText,
                    responseMimeType = None, responseSchema = None\<rparr>,
              Some \<lparr>systemInstruction = Some systemInstructionText,
                    responseMimeType = None, responseSchema = None\<rparr>,
              None,
              Some \<lparr>systemInstruction = None,
                    responseMimeType = Some (ustr ''application/json''),
                    responseSchema = Some slidesSchema\<rparr>,
              None,
              None] \<and>
           map system_instruction_of qs =
             [Some systemInstructionText, Some systemInstructionText,
              Some systemInstructionText, None, None, None, None] \<and>
           (\<forall>b. res = Inr b \<longrightarrow> length ns = 7)"
  using generateAnalysis_calls [OF assms]
  apply (elim exE conjE)
  subgoal for ns summ crit plan
    apply (rule exI [of _ ns])
    apply (rule exI [of _ "stage_requests (InlineData mimeType fileBase64) summ crit plan"])
    apply (intro conjI;
        (assumption | rule stage_requests_config | rule stage_requests_system_instruction)?)
    apply blast
    done
  done

theorem system_instruction_only_in_first_three_stages_witness:
  "\<exists>ns qs.
     length ns = 7 \<and> (\<forall>n\<in>set ns. 1 \<le> n) \<and>
     calls (snd (generateAnalysis json_parse_fragment (answers (replicate 7 ok_response))
                   sample_file sample_mime [])) = concat (map2 replicate ns qs) \<and>
     map system_instruction_of qs =
       [Some systemInstructionText, Some systemInstructionText,
        Some systemInstructionText, None, None, None, None]"
  using system_instruction_only_in_first_three_stages [OF sample_run]
  apply (elim exE conjE)
  subgoal for ns qs
    apply (rule exI [of _ ns])
    apply (rule exI [of _ qs])
    apply simp
    done
  done

subsection \<open>The slides field\<close>

text \<open>
  Claim C3, amended. In every run that returns a bundle, the slides field is what the
  parser returns for the cleaned text of the response that stage 5 received, or the
  one-element placeholder list when the parser throws. An absent or empty text is
  replaced by \<^verbatim>\<open>[]\<close> before parsing, so the slides field is then what \<^verbatim>\<open>[]\<close> parses
  to: the empty list, for \<^verbatim>\<open>JSON.parse\<close>. The field is non-empty after a parse failure
  only.
\<close>

theorem slides_of_returned_bundle:
  assumes "generateAnalysis JSON_parse remote fileBase64 mimeType w0 = (Inr b, w)"
  shows "\<exists>r5 w4 w5.
           generateWithRetry remote
             (slidesRequest (InlineData mimeType fileBase64) (summary b) (experimentPlan b))
             10 10000 w4 = (Inr r5, w5) \<and>
           slides b =
             (case JSON_parse (cleanJson (js_or (resp_text r5) (ustr ''[]''))) of
                Some v \<Rightarrow> v
              | None \<Rightarrow>
                  JsonArray
                    [JsonObject
                       [(ustr ''title'', JsonString (ustr ''Error'')),
                        (ustr ''bullets'',
                         JsonArray [JsonString (ustr ''Failed to generate slides data.'')])]]) \<and>
           (resp_text r5 = None \<or> resp_text r5 = Some [] \<longrightarrow>
              slides b =
                (case JSON_parse (ustr ''[]'') of
                   Some v \<Rightarrow> v
                 | None \<Rightarrow>
                     JsonArray
                       [JsonObject
                          [(ustr ''title'', JsonString (ustr ''Error'')),
                           (ustr ''bullets'',
                            JsonArray [JsonString (ustr ''Failed to generate slides data.'')])]]))"
  using assms
proof (cases rule: generateAnalysis_cases)
  case (returns r1 w1 r2 w2 r3 w3 r4 w4 r5 w5 r6 w6 r7 w7)
  from returns(8) have b: "summary b = summary_of r1" "experimentPlan b = plan_of r3"
    "slides b = slides_of JSON_parse r5"
    by simp_all
  have "resp_text r5 = None \<or> resp_text r5 = Some [] \<Longrightarrow>
      cleanJson (js_or (resp_text r5) (ustr ''[]'')) = ustr ''[]''"
    by (auto simp: js_or_def cleanJson_falls_back)
  with b(3) have imp: "resp_text r5 = None \<or> resp_text r5 = Some [] \<longrightarrow>
      slides b = (case JSON_parse (ustr ''[]'') of Some v \<Rightarrow> v | None \<Rightarrow> slides_placeholder)"
    by (simp add: slides_of_def)
  show ?thesis
    apply (rule exI [of _ r5])
    apply (rule exI [of _ "w4 @ stage_start 5"])
    apply (rule exI [of _ w5])
    using b returns(5) imp unfolding slides_of_def slides_placeholder_def
    apply simp
    done
qed simp_all

theorem slides_of_returned_bundle_witness:
  "\<exists>r5 w4 w5.
     generateWithRetry (answers sample_responses)
       (slidesRequest (InlineData sample_mime sample_file) (ustr ''ok'') (ustr ''ok''))
       10 10000 w4 = (Inr r5, w5) \<and>
     JsonArray
       [JsonObject
          [(ustr ''title'', JsonString (ustr ''Core Idea'')),
           (ustr ''bullets'', JsonArray [JsonString (ustr ''one''), JsonString (ustr ''two'')])]] =
       (case json_parse_fragment (cleanJson (js_or (resp_text r5) (ustr ''[]''))) of
          Some v \<Rightarrow> v
        | None \<Rightarrow>
            JsonArray
              [JsonObject
                 [(ustr ''title'', JsonString (ustr ''Error'')),
                  (ustr ''bullets'',
                   JsonArray [JsonString (ustr ''Failed to generate slides data.'')])]])"
proof -
  let ?run = "generateAnalysis json_parse_fragment (answers sample_responses)
                sample_file sample_mime []"
  have run: "?run =
      (Inr \<lparr>summary = ustr ''ok'', critique = ustr ''ok'', experimentPlan = ustr ''ok'',
            pythonCode = ustr ''ok'', experimentInterpretation = ustr ''ok'',
            validationReport = ustr ''ok'',
            slides = JsonArray
              [JsonObject
                 [(ustr ''title'', JsonString (ustr ''Core Idea'')),
                  (ustr ''bullets'',
                   JsonArray [JsonString (ustr ''one''), JsonString (ustr ''two'')])]]\<rparr>,
       snd ?run)"
    by (simp add: generateAnalysis_answers sample_responses_def summary_of_def critique_of_def
        plan_of_def code_of_def interpretation_of_def validation_of_def js_or_def
        ok_response_def [symmetric] slides_of_sample)
       (simp add: ok_response_def ok_not_empty cleanCode_ok)
  from slides_of_returned_bundle [OF run] show ?thesis
    apply (elim exE conjE)
    subgoal for r5 w4 w5
      apply (rule exI [of _ r5])
      apply (rule exI [of _ w4])
      apply (rule exI [of _ w5])
      apply simp
      done
    done
qed

text \<open>
  The claim as stated makes the slides field non-empty in every returned bundle. With
  an empty response text in stage 5 the text \<^verbatim>\<open>[]\<close> is parsed and the slides field is the
  empty list.
\<close>

theorem empty_slides_counterexample:
  "map_sum id slides
     (fst (generateAnalysis json_parse_fragment (answers (replicate 7 empty_text))
             sample_file sample_mime [])) = Inr (JsonArray [])"
  by (simp add: generateAnalysis_answers slides_of_def js_or_def empty_text_def
      cleanJson_falls_back json_parse_fragment_empty_array)



subsection \<open>Responses without text\<close>

text \<open>
  Claim C7, amended. Let every stage receive a response from \<^verbatim>\<open>generateWithRetry\<close>.
  Then the pipeline returns a bundle, whatever the texts of the responses are: a stage
  whose response has no text or an empty text does not fail the run, and its output is
  the fixed placeholder of the stage. The placeholders are
  \<^verbatim>\<open>Failed to generate summary.\<close>, \<^verbatim>\<open>Failed to generate critique.\<close>,
  \<^verbatim>\<open>Failed to generate experiment plan.\<close>, \<^verbatim>\<open># Failed to generate code.\<close> (stage 4),
  \<^verbatim>\<open>Failed to generate interpretation.\<close> and \<^verbatim>\<open>Validation check failed.\<close> (stage 7).
  Every run that returns a bundle is of this kind, and a run throws only what a
  \<^verbatim>\<open>generateWithRetry\<close> threw (the two lemmas after \<open>generateAnalysis_returns_if\<close>).
\<close>

theorem empty_text_falls_back_to_placeholder:
  assumes "generateWithRetry remote (summaryRequest (InlineData m f)) 10 10000
             (w0 @ stage_start 1) = (Inr r1, w1)"
    and "generateWithRetry remote (critiqueRequest (InlineData m f)) 10 10000
             (w1 @ stage_start 2) = (Inr r2, w2)"
    and "generateWithRetry remote (experimentRequest (InlineData m f)) 10 10000
             (w2 @ stage_start 3) = (Inr r3, w3)"
    and "generateWithRetry remote (codeRequest (plan_of r3)) 10 10000
             (w3 @ stage_start 4) = (Inr r4, w4)"
    and "generateWithRetry remote
             (slidesRequest (InlineData m f) (summary_of r1) (plan_of r3)) 10 10000
             (w4 @ stage_start 5) = (Inr r5, w5)"
    and "generateWithRetry remote (interpretationRequest (plan_of r3)) 10 10000
             (w5 @ parse_log JSON_parse r5 @ stage_start 6) = (Inr r6, w6)"
    and "generateWithRetry remote
             (validationRequest (InlineData m f) (summary_of r1) (critique_of r2) (plan_of r3))
             10 10000 (w6 @ stage_start 7) = (Inr r7, w7)"
  shows "\<exists>b. generateAnalysis JSON_parse remote f m w0 = (Inr b, w7) \<and>
           summary b =
             (if resp_text r1 = None \<or> resp_text r1 = Some []
              then ustr ''Failed to generate summary.'' else the (resp_text r1)) \<and>
           critique b =
             (if resp_text r2 = None \<or> resp_text r2 = Some []
              then ustr ''Failed to generate critique.'' else the (resp_text r2)) \<and>
           experimentPlan b =
             (if resp_text r3 = None \<or> resp_text r3 = Some []
              then ustr ''Failed to generate experiment plan.'' else the (resp_text r3)) \<and>
           pythonCode b =
             (if resp_text r4 = None \<or> resp_text r4 = Some []
              then ustr ''# Failed to generate code.'' else cleanCode (the (resp_text r4))) \<and>
           experimentInterpretation b =
             (if resp_text r6 = None \<or> resp_text r6 = Some []
              then ustr ''Failed to generate interpretation.'' else the (resp_text r6)) \<and>
           validationReport b =
             (if resp_text r7 = None \<or> resp_text r7 = Some []
              then ustr ''Validation check failed.'' else the (resp_text r7))"
proof -
  let ?b = "\<lparr>summary = summary_of r1, critique = critique_of r2, experimentPlan = plan_of r3,
             pythonCode = code_of r4, experimentInterpretation = interpretation_of r6,
             validationReport = validation_of r7, slides = slides_of JSON_parse r5\<rparr>"
  have run: "generateAnalysis JSON_parse remote f m w0 = (Inr ?b, w7)"
    using assms by (rule generateAnalysis_returns_if)
  have "summary ?b =
      (if resp_text r1 = None \<or> resp_text r1 = Some []
       then ustr ''Failed to generate summary.'' else the (resp_text r1))"
    by (simp add: summary_of_def js_or_cases)
  moreover have "critique ?b =
      (if resp_text r2 = None \<or> resp_text r2 = Some []
       then ustr ''Failed to generate critique.'' else the (resp_text r2))"
    by (simp add: critique_of_def js_or_cases)
  moreover have "experimentPlan ?b =
      (if resp_text r3 = None \<or> resp_text r3 = Some []
       then ustr ''Failed to generate experiment plan.'' else the (resp_text r3))"
    by (simp add: plan_of_def js_or_cases)
  moreover have "pythonCode ?b =
      (if resp_text r4 = None \<or> resp_text r4 = Some []
       then ustr ''# Failed to generate code.'' else cleanCode (the (resp_text r4)))"
    by (simp add: code_of_def js_or_cases cleanCode_placeholder)
  moreover have "experimentInterpretation ?b =
      (if resp_text r6 = None \<or> resp_text r6 = Some []
       then ustr ''Failed to generate interpretation.'' else the (resp_text r6))"
    by (simp add: interpretation_of_def js_or_cases)
  moreover have "validationReport ?b =
      (if resp_text r7 = None \<or> resp_text r7 = Some []
       then ustr ''Validation check failed.'' else the (resp_text r7))"
    by (simp add: validation_of_def js_or_cases)
  ultimately show ?thesis using run by (intro exI [of _ ?b] conjI)
qed

theorem empty_text_falls_back_to_placeholder_witness:
  "\<exists>b. fst (generateAnalysis json_parse_fragment (answers (replicate 7 no_text))
               sample_file sample_mime []) = Inr b \<and>
       summary b = ustr ''Failed to generate summary.'' \<and>
       critique b = ustr ''Failed to generate critique.'' \<and>
       experimentPlan b = ustr ''Failed to generate experiment plan.'' \<and>
       pythonCode b = ustr ''# Failed to generate code.'' \<and>
       experimentInterpretation b = ustr ''Failed to generate interpretation.'' \<and>
       validationReport b = ustr ''Validation check failed.''"
proof -
  have len: "length (replicate 7 no_text) = 7" by simp
  from empty_text_falls_back_to_placeholder [OF answers_stages [OF len],
      where m = sample_mime and f = sample_file and JSON_parse = json_parse_fragment]
  show ?thesis
    apply (elim exE conjE)
    subgoal for b
      apply (rule exI [of _ b])
      apply (simp add: no_text_def)
      done
    done
qed

text \<open>
  The claim as stated gives every placeholder the form "Failed to generate X". With an
  empty text in stage 7 the validation report is \<^verbatim>\<open>Validation check failed.\<close>, which
  does not start that way.
\<close>

theorem validation_placeholder_counterexample:
  "map_sum id validationReport
     (fst (generateAnalysis json_parse_fragment (answers (replicate 7 empty_text))
             sample_file sample_mime [])) = Inr (ustr ''Validation check failed.'') \<and>
   \<not> startsWith (ustr ''Validation check failed.'') (ustr ''Failed to generate'')"
proof -
  have "\<not> startsWith (ustr ''Validation check failed.'') (ustr ''Failed to generate'')"
    by (simp add: ustr_def)
  then show ?thesis
    by (simp add: generateAnalysis_answers validation_of_def js_or_def empty_text_def)
qed

end
